theory Spec2Isabelle
  imports Complex_Main "HOL-Library.AList" "HOL-Library.Multiset" "HOL-Library.Code_Target_Nat"
begin

section \<open>JavaScript values used by the agents\<close>

subsection \<open>Numbers\<close>

text \<open>
  A JavaScript number is a binary64 double. A finite one is modelled by the real number
  it denotes, and the three special values are kept apart; negative zero is not
  distinguished from zero (both are falsy and compare equal). Comparison of two doubles
  is comparison of their values, so \<open><\<close> and \<open>>\<close> are exact. A product and the
  value of a decimal text are rounded to the nearest double (ties to even) by
  \<open>round_double\<close> below. Of a difference only the sign is ever used, and the
  difference of two doubles has the sign of its rounded value, so \<open>-\<close> is taken
  exactly.
\<close>

datatype jsnum = NaN | NegInf | Fin real | PosInf

text \<open>The relational operator \<open>a < b\<close>: false as soon as one side is NaN.\<close>

fun js_lt :: "jsnum \<Rightarrow> jsnum \<Rightarrow> bool" where
  "js_lt NaN b = False"
| "js_lt a NaN = False"
| "js_lt a NegInf = False"
| "js_lt PosInf b = False"
| "js_lt NegInf b = True"
| "js_lt (Fin x) PosInf = True"
| "js_lt (Fin x) (Fin y) = (x < y)"

text \<open>\<open>a > b\<close> is \<open>b < a\<close> in ECMAScript.\<close>

definition js_gt :: "jsnum \<Rightarrow> jsnum \<Rightarrow> bool" where
  "js_gt a b = js_lt b a"

text \<open>\<open>a >= b\<close>: neither side is NaN and \<open>a < b\<close> is false.\<close>

definition js_ge :: "jsnum \<Rightarrow> jsnum \<Rightarrow> bool" where
  "js_ge a b = (a \<noteq> NaN \<and> b \<noteq> NaN \<and> \<not> js_lt a b)"

text \<open>Truthiness of a number (\<open>if (n)\<close>): zero and NaN are falsy.\<close>

fun truthy :: "jsnum \<Rightarrow> bool" where
  "truthy NaN = False"
| "truthy (Fin x) = (x \<noteq> 0)"
| "truthy NegInf = True"
| "truthy PosInf = True"

text \<open>Truthiness of an optional number: \<open>undefined\<close> is falsy.\<close>

fun truthy_opt :: "jsnum option \<Rightarrow> bool" where
  "truthy_opt None = False"
| "truthy_opt (Some n) = truthy n"

text \<open>The number of binary digits of a natural number.\<close>

fun bit_length :: "nat \<Rightarrow> nat" where
  "bit_length n = (if n = 0 then 0 else Suc (bit_length (n div 2)))"

declare bit_length.simps [simp del]

text \<open>The power of two with an integer exponent.\<close>

definition pow2 :: "int \<Rightarrow> real" where
  "pow2 e = (if 0 \<le> e then 2 ^ nat e else 1 / 2 ^ nat (- e))"

text \<open>
  The binary exponent of a positive real \<open>a\<close>: the integer \<open>k\<close> with
  \<open>2^k \<le> a < 2^(k+1)\<close>, from the digits of \<open>\<lfloor>a\<rfloor>\<close> when \<open>a \<ge> 1\<close> and of
  \<open>\<lceil>1/a\<rceil> - 1\<close> otherwise.
\<close>

definition ilog2 :: "real \<Rightarrow> int" where
  "ilog2 a =
     (if 1 \<le> a then int (bit_length (nat \<lfloor>a\<rfloor>)) - 1
      else - int (bit_length (nat (\<lceil>1 / a\<rceil> - 1))))"

text \<open>The nearest integer, a tie going to the even one.\<close>

definition round_half_even :: "real \<Rightarrow> int" where
  "round_half_even r =
     (let f = \<lfloor>r\<rfloor>; d = r - of_int f
      in if d < 1 / 2 then f else if 1 / 2 < d then f + 1
         else if even f then f else f + 1)"

text \<open>
  Rounding of a real to binary64, to nearest with ties to even: the significand has 53
  binary digits, the exponent of its last digit is at least -1074 (below that the
  subnormal numbers keep the spacing \<open>2^-1074\<close>), and a result of \<open>2^1024\<close> or more
  is an infinity.
\<close>

definition round_double :: "real \<Rightarrow> jsnum" where
  "round_double x =
     (if x = 0 then Fin 0
      else
        (let a = \<bar>x\<bar>;
             e = max (ilog2 a - 52) (- 1074);
             m = round_half_even (a / pow2 e);
             v = of_int m * pow2 e
         in if 2 ^ 1024 \<le> v then (if x < 0 then NegInf else PosInf)
            else Fin (if x < 0 then - v else v)))"



text \<open>
  \<open>a - b\<close>, used for its sign only: the exact difference of two finite numbers; the
  difference of two infinities of the same sign is NaN.
\<close>

fun js_sub :: "jsnum \<Rightarrow> jsnum \<Rightarrow> jsnum" where
  "js_sub NaN b = NaN"
| "js_sub a NaN = NaN"
| "js_sub (Fin x) (Fin y) = Fin (x - y)"
| "js_sub PosInf PosInf = NaN"
| "js_sub NegInf NegInf = NaN"
| "js_sub PosInf b = PosInf"
| "js_sub NegInf b = NegInf"
| "js_sub (Fin x) PosInf = NegInf"
| "js_sub (Fin x) NegInf = PosInf"


subsection \<open>Strings\<close>

definition is_digit :: "char \<Rightarrow> bool" where
  "is_digit c = (48 \<le> (of_char c :: nat) \<and> (of_char c :: nat) \<le> 57)"

definition digit_val :: "char \<Rightarrow> nat" where
  "digit_val c = of_char c - 48"

definition digits_val :: "string \<Rightarrow> nat" where
  "digits_val ds = foldl (\<lambda>acc c. 10 * acc + digit_val c) 0 ds"

text \<open>The ASCII white space that \<open>parseFloat\<close> skips: TAB, LF, VT, FF, CR, SP.\<close>

definition is_space :: "char \<Rightarrow> bool" where
  "is_space c = ((9 \<le> (of_char c :: nat) \<and> (of_char c :: nat) \<le> 13) \<or> (of_char c :: nat) = 32)"

text \<open>An optional sign in front of a numeral: whether it is a minus, and the rest.\<close>

fun take_sign :: "string \<Rightarrow> bool \<times> string" where
  "take_sign [] = (False, [])"
| "take_sign (c # cs) =
     (if c = CHR ''-'' then (True, cs) else if c = CHR ''+'' then (False, cs)
      else (False, c # cs))"

text \<open>
  The exponent part \<open>e\<close>/\<open>E\<close>, optional sign, digits; it counts only when at
  least one digit follows.
\<close>

fun exponent_part :: "string \<Rightarrow> int" where
  "exponent_part [] = 0"
| "exponent_part (c # cs) =
     (if c = CHR ''e'' \<or> c = CHR ''E'' then
        (case take_sign cs of (neg, r) \<Rightarrow>
           (let ds = takeWhile is_digit r
            in if ds = [] then 0
               else if neg then - int (digits_val ds) else int (digits_val ds)))
      else 0)"

definition scale10 :: "real \<Rightarrow> int \<Rightarrow> real" where
  "scale10 m e = (if 0 \<le> e then m * 10 ^ nat e else m / 10 ^ nat (- e))"

text \<open>
  \<open>parseFloat\<close>: skip leading white space, read the longest prefix that is a decimal
  literal (sign, \<open>Infinity\<close>, or digits with optional fraction and exponent), NaN when
  there is none. \<open>parseFloat(undefined)\<close> reads the text \<open>undefined\<close> and is NaN.
  The decimal value read is rounded to the nearest double.
\<close>

fun parseFloat :: "string option \<Rightarrow> jsnum" where
  "parseFloat None = NaN"
| "parseFloat (Some s) =
     (case take_sign (dropWhile is_space s) of (neg, u) \<Rightarrow>
        if take 8 u = ''Infinity'' then (if neg then NegInf else PosInf)
        else
          (let ip = takeWhile is_digit u;
               r1 = dropWhile is_digit u;
               fp = (case r1 of [] \<Rightarrow> []
                     | c # r \<Rightarrow> if c = CHR ''.'' then takeWhile is_digit r else []);
               r2 = (case r1 of [] \<Rightarrow> []
                     | c # r \<Rightarrow> if c = CHR ''.'' then dropWhile is_digit r else r1)
           in if ip = [] \<and> fp = [] then NaN
              else
                (let m = real (digits_val ip) + real (digits_val fp) / 10 ^ length fp;
                     v = scale10 m (exponent_part r2)
                 in round_double (if neg then - v else v))))"

declare parseFloat.simps(2) [simp del]







text \<open>
  \<open>String.prototype.split\<close> with a one-character separator: the pieces between the
  separators, always at least one piece.
\<close>

fun split :: "char \<Rightarrow> string \<Rightarrow> string list" where
  "split sep [] = [[]]"
| "split sep (c # cs) =
     (if c = sep then [] # split sep cs
      else (case split sep cs of [] \<Rightarrow> [[c]] | p # ps \<Rightarrow> (c # p) # ps))"

section \<open>Thrown values and awaited results\<close>

text \<open>
  What a \<open>throw\<close> or a rejected promise carries: an object with a \<open>message\<close>
  (every \<open>new Error(...)\<close> of the code, and the TypeErrors of the runtime), \<open>null\<close> or
  \<open>undefined\<close>, or some other value that has no \<open>message\<close> property. An awaited
  call is a value of \<open>thrown + 'a\<close>: \<open>Inl\<close> when it rejects, \<open>Inr\<close> when it
  resolves.
\<close>

datatype thrown = ErrorObj string | ThrownNullish | ThrownOther

text \<open>The TypeError of reading a property of \<open>null\<close> or \<open>undefined\<close>.\<close>

definition TypeError_reading_message :: thrown where
  "TypeError_reading_message = ErrorObj ''Cannot read properties of undefined''"

text \<open>The TypeError of spreading a value that is not iterable into a call.\<close>

definition TypeError_not_iterable :: thrown where
  "TypeError_not_iterable = ErrorObj ''Spread syntax requires an iterable''"

section \<open>The capability clients\<close>

text \<open>
  \<open>PriceData\<close> of the market client. The clients do network I/O; the agents see each
  call as a result that resolves or rejects, so the clients are the fields of the record
  \<open>clients\<close> below and every theorem holds for all of them. A field of a parameter
  object that the caller left out is \<open>undefined\<close>, here \<open>None\<close>.
\<close>

record PriceData =
  price :: jsnum
  change24h :: jsnum
  volume24h :: jsnum
  marketCap :: jsnum

text \<open>An entry of \<open>getTopCryptos\<close>: the fields the agents read.\<close>

record crypto =
  crypto_symbol :: string
  price_change_percentage_24h :: jsnum

text \<open>
  The answer of \<open>getMarketStats\<close>: \<open>stats.data.total_market_cap.usd\<close> and
  \<open>stats.data.market_cap_change_percentage_24h_usd\<close>.
\<close>

record market_stats =
  total_market_cap_usd :: jsnum
  market_cap_change_percentage_24h_usd :: jsnum

text \<open>A transaction of the history: the fields \<open>to\<close> and \<open>value\<close>.\<close>

record transaction =
  tx_to :: "string option"
  tx_value :: string

text \<open>An element of the untyped arrays \<open>abi\<close> and \<open>params\<close>.\<close>

datatype jsval = JUndefined | JNull | JBool bool | JNum jsnum | JStr string | JArr "jsval list"

record clients =
  getBalance :: "string option \<Rightarrow> thrown + string"
  getTransactionHistory :: "string option \<Rightarrow> thrown + transaction list"
  getTransactionStatus :: "string option \<Rightarrow> thrown + string"
  getGasPrice :: "thrown + string"
  getPrice :: "string option \<Rightarrow> thrown + PriceData"
  getTopCryptos :: "nat \<Rightarrow> thrown + crypto list"
  getMarketStats :: "thrown + market_stats"
  estimateContractGas ::
    "string option \<Rightarrow> jsval list option \<Rightarrow> string option \<Rightarrow> jsval list \<Rightarrow> thrown + string"
  toISOString_now :: string

section \<open>CryptoAgent\<close>

record 'a TaskResult =
  success :: bool
  data :: "'a option"
  error :: "string option"

text \<open>
  \<open>executeTask\<close>: look the task up; without one, the not-found result; otherwise await
  the handler inside \<open>try\<close>. The \<open>catch\<close> reads \<open>error.message\<close>: the message of an
  error object, \<open>undefined\<close> for a value without one, and a TypeError, which leaves
  \<open>executeTask\<close>, when the thrown value is \<open>null\<close> or \<open>undefined\<close>.
\<close>

definition executeTask ::
  "(string \<Rightarrow> ('p \<Rightarrow> thrown + 'a) option) \<Rightarrow> string \<Rightarrow> 'p \<Rightarrow> thrown + 'a TaskResult" where
  "executeTask tasks taskName params =
     (case tasks taskName of
        None \<Rightarrow>
          Inr \<lparr>success = False, data = None,
               error = Some (''Task '' @ [CHR 0x27] @ taskName @ [CHR 0x27] @ '' not found'')\<rparr>
      | Some task \<Rightarrow>
          (case task params of
             Inr result \<Rightarrow> Inr \<lparr>success = True, data = Some result, error = None\<rparr>
           | Inl (ErrorObj message) \<Rightarrow> Inr \<lparr>success = False, data = None, error = Some message\<rparr>
           | Inl ThrownOther \<Rightarrow> Inr \<lparr>success = False, data = None, error = None\<rparr>
           | Inl ThrownNullish \<Rightarrow> Inl TypeError_reading_message))"

subsection \<open>Parameters and results of the tasks\<close>

text \<open>
  The parameter object of a task (\<open>params: any\<close>): the fields the six handlers
  destructure, each present or \<open>undefined\<close>. The field \<open>type\<close> of \<open>execute_trade\<close> is
  \<open>trade_type\<close> here, and \<open>method\<close> is \<open>contract_method\<close>.
\<close>

record task_params =
  symbol :: "string option"
  address :: "string option"
  trade_type :: "string option"
  amount :: "string option"
  token :: "string option"
  priceThreshold :: "jsnum option"
  txHash :: "string option"
  abi :: "jsval list option"
  contract_method :: "string option"
  params :: "jsval list option"

definition no_params :: task_params where
  "no_params = \<lparr>symbol = None, address = None, trade_type = None, amount = None,
     token = None, priceThreshold = None, txHash = None, abi = None, contract_method = None,
     params = None\<rparr>"

text \<open>The object returned by \<open>checkPrice\<close>: \<open>{price, change24h, recommendation}\<close>.\<close>

record check_price_result =
  cp_price :: jsnum
  cp_change24h :: jsnum
  cp_recommendation :: string

text \<open>The object returned by \<open>monitorWallet\<close>.\<close>

record monitor_wallet_result =
  balance :: string
  recentTransactions :: "transaction list"
  securityStatus :: string

text \<open>The object returned by \<open>executeTrade\<close>: \<open>{type, amount, token, executionPrice, timestamp}\<close>.\<close>

record execute_trade_result =
  et_type :: "string option"
  et_amount :: "string option"
  et_token :: "string option"
  executionPrice :: jsnum
  timestamp :: string

text \<open>The object returned by \<open>analyzeMarket\<close>.\<close>

record analyze_market_result =
  topPerformers :: "crypto list"
  marketSentiment :: string
  recommendations :: "string list"

text \<open>The object returned by \<open>trackTransaction\<close>.\<close>

record track_transaction_result =
  tt_status :: string
  tt_gasPrice :: string
  tt_recommendation :: string

text \<open>The object returned by \<open>interactWithContract\<close>.\<close>

record contract_result =
  gasEstimate :: string
  safetyCheck :: string
  estimatedCost :: string

datatype task_data =
    CheckPrice check_price_result
  | MonitorWallet monitor_wallet_result
  | ExecuteTrade execute_trade_result
  | AnalyzeMarket analyze_market_result
  | TrackTransaction track_transaction_result
  | ContractInteraction contract_result

subsection \<open>check\_price\<close>

definition analyzePriceMovement :: "PriceData \<Rightarrow> string" where
  "analyzePriceMovement priceData =
     (if js_gt (change24h priceData) (Fin 5) then ''Consider Taking Profits''
      else if js_lt (change24h priceData) (Fin (- 5)) then ''Potential Buying Opportunity''
      else ''Market Stable'')"

definition checkPrice :: "clients \<Rightarrow> task_params \<Rightarrow> thrown + task_data" where
  "checkPrice c p =
     (case getPrice c (symbol p) of
        Inl e \<Rightarrow> Inl e
      | Inr priceData \<Rightarrow>
          Inr (CheckPrice \<lparr>cp_price = price priceData, cp_change24h = change24h priceData,
                 cp_recommendation = analyzePriceMovement priceData\<rparr>))"

subsection \<open>monitor\_wallet\<close>

text \<open>
  The number of distinct recipients (the size of the \<open>Set\<close> of the \<open>to\<close> fields) and
  the number of transactions whose value reads as more than 1.
\<close>

definition assessWalletSecurity :: "transaction list \<Rightarrow> string" where
  "assessWalletSecurity transactions =
     (let uniqueRecipients = length (remdups (map tx_to transactions));
          largeTransactions =
            length (filter (\<lambda>tx. js_gt (parseFloat (Some (tx_value tx))) (Fin 1)) transactions)
      in if uniqueRecipients > 10 \<and> largeTransactions > 5
         then ''High Activity - Enhanced Security Recommended''
         else ''Normal Activity'')"

text \<open>\<open>transactions.slice(-5)\<close> is the last five elements.\<close>

definition monitorWallet :: "clients \<Rightarrow> task_params \<Rightarrow> thrown + task_data" where
  "monitorWallet c p =
     (case getBalance c (address p) of
        Inl e \<Rightarrow> Inl e
      | Inr bal \<Rightarrow>
          (case getTransactionHistory c (address p) of
             Inl e \<Rightarrow> Inl e
           | Inr transactions \<Rightarrow>
               Inr (MonitorWallet \<lparr>balance = bal,
                      recentTransactions = drop (length transactions - 5) transactions,
                      securityStatus = assessWalletSecurity transactions\<rparr>)))"

subsection \<open>execute\_trade\<close>

text \<open>
  The guard \<open>if (priceThreshold)\<close> is the truthiness of the optional number: it is
  skipped for \<open>undefined\<close>, for zero and for NaN. Inside it the two comparisons run
  only for the matching \<open>type\<close>. The record returned carries the clock's ISO time.
\<close>

definition executed_trade :: "clients \<Rightarrow> task_params \<Rightarrow> PriceData \<Rightarrow> task_data" where
  "executed_trade c p currentPrice =
     ExecuteTrade \<lparr>et_type = trade_type p, et_amount = amount p, et_token = token p,
       executionPrice = price currentPrice, timestamp = toISOString_now c\<rparr>"

definition executeTrade :: "clients \<Rightarrow> task_params \<Rightarrow> thrown + task_data" where
  "executeTrade c p =
     (case getPrice c (token p) of
        Inl e \<Rightarrow> Inl e
      | Inr currentPrice \<Rightarrow>
          (case priceThreshold p of
             None \<Rightarrow> Inr (executed_trade c p currentPrice)
           | Some threshold \<Rightarrow>
               if truthy threshold then
                 (if trade_type p = Some ''buy'' \<and> js_gt (price currentPrice) threshold
                  then Inl (ErrorObj ''Price above threshold'')
                  else if trade_type p = Some ''sell'' \<and> js_lt (price currentPrice) threshold
                  then Inl (ErrorObj ''Price below threshold'')
                  else Inr (executed_trade c p currentPrice))
               else Inr (executed_trade c p currentPrice)))"

subsection \<open>analyze\_market\<close>

text \<open>
  \<open>Array.prototype.sort\<close> with a comparator is stable: an element moves behind another
  one only when the comparator, called on the two, is positive (a NaN counts as zero).
  Insertion from the right gives that order.
\<close>

fun insert_sorted :: "('a \<Rightarrow> 'a \<Rightarrow> jsnum) \<Rightarrow> 'a \<Rightarrow> 'a list \<Rightarrow> 'a list" where
  "insert_sorted cmp x [] = [x]"
| "insert_sorted cmp x (y # ys) =
     (if js_gt (cmp x y) (Fin 0) then y # insert_sorted cmp x ys else x # y # ys)"

definition js_sort :: "('a \<Rightarrow> 'a \<Rightarrow> jsnum) \<Rightarrow> 'a list \<Rightarrow> 'a list" where
  "js_sort cmp xs = foldr (insert_sorted cmp) xs []"

definition identifyTopPerformers :: "crypto list \<Rightarrow> crypto list" where
  "identifyTopPerformers cryptos =
     take 3
       (js_sort (\<lambda>a b. js_sub (price_change_percentage_24h b) (price_change_percentage_24h a))
          (filter (\<lambda>crypto. js_gt (price_change_percentage_24h crypto) (Fin 0)) cryptos))"

definition calculateMarketSentiment :: "market_stats \<Rightarrow> string" where
  "calculateMarketSentiment stats =
     (let marketCapChange = market_cap_change_percentage_24h_usd stats
      in if js_gt marketCapChange (Fin 5) then ''Bullish''
         else if js_lt marketCapChange (Fin (- 5)) then ''Bearish''
         else ''Neutral'')"

definition generateMarketRecommendations :: "crypto list \<Rightarrow> market_stats \<Rightarrow> string list" where
  "generateMarketRecommendations cryptos stats =
     (let sentiment = calculateMarketSentiment stats
      in if sentiment = ''Bullish'' then [''Consider increasing portfolio exposure'']
         else if sentiment = ''Bearish'' then [''Consider reducing risk'']
         else [])"

definition analyzeMarket :: "clients \<Rightarrow> task_params \<Rightarrow> thrown + task_data" where
  "analyzeMarket c p =
     (case getTopCryptos c 10 of
        Inl e \<Rightarrow> Inl e
      | Inr topCryptos \<Rightarrow>
          (case getMarketStats c of
             Inl e \<Rightarrow> Inl e
           | Inr marketStats \<Rightarrow>
               Inr (AnalyzeMarket \<lparr>topPerformers = identifyTopPerformers topCryptos,
                      marketSentiment = calculateMarketSentiment marketStats,
                      recommendations = generateMarketRecommendations topCryptos marketStats\<rparr>)))"

subsection \<open>track\_transaction\<close>

definition provideTransactionInsights :: "string \<Rightarrow> string \<Rightarrow> string" where
  "provideTransactionInsights status gasPrice =
     (if status = ''Pending'' \<and> js_gt (parseFloat (Some gasPrice)) (Fin 100)
      then ''Consider increasing gas price for faster confirmation''
      else ''Transaction progressing normally'')"

definition trackTransaction :: "clients \<Rightarrow> task_params \<Rightarrow> thrown + task_data" where
  "trackTransaction c p =
     (case getTransactionStatus c (txHash p) of
        Inl e \<Rightarrow> Inl e
      | Inr status \<Rightarrow>
          (case getGasPrice c of
             Inl e \<Rightarrow> Inl e
           | Inr gasPrice \<Rightarrow>
               Inr (TrackTransaction \<lparr>tt_status = status, tt_gasPrice = gasPrice,
                      tt_recommendation = provideTransactionInsights status gasPrice\<rparr>)))"

subsection \<open>smart\_contract\_interaction\<close>

text \<open>\<open>params[1]\<close>: the second element, \<open>undefined\<close> when the array is shorter.\<close>

definition second_param :: "jsval list \<Rightarrow> jsval" where
  "second_param ps = (if 1 < length ps then ps ! 1 else JUndefined)"

definition validateHighRiskOperation :: "string option \<Rightarrow> jsval list \<Rightarrow> thrown + unit" where
  "validateHighRiskOperation meth ps =
     (if meth = Some ''approve''
         \<and> second_param ps = JStr ''0xffffffffffffffffffffffffffffffffffffffff''
      then Inl (ErrorObj ''Infinite approval detected - consider limiting approval amount'')
      else Inr ())"

definition validateContractInteraction :: "string option \<Rightarrow> jsval list \<Rightarrow> thrown + unit" where
  "validateContractInteraction meth ps =
     (if meth \<in> set [Some ''transfer'', Some ''approve'', Some ''mint'']
      then validateHighRiskOperation meth ps
      else Inr ())"

definition calculateTransactionCost :: "string \<Rightarrow> string" where
  "calculateTransactionCost gas = ''Estimated cost: '' @ gas @ '' gas units''"

text \<open>
  The gas estimate is awaited first, with \<open>...params\<close> spread into the call (a TypeError
  when \<open>params\<close> is \<open>undefined\<close>); the validation runs after it has resolved.
\<close>

definition interactWithContract :: "clients \<Rightarrow> task_params \<Rightarrow> thrown + task_data" where
  "interactWithContract c p =
     (case params p of
        None \<Rightarrow> Inl TypeError_not_iterable
      | Some ps \<Rightarrow>
          (case estimateContractGas c (address p) (abi p) (contract_method p) ps of
             Inl e \<Rightarrow> Inl e
           | Inr gas \<Rightarrow>
               (case validateContractInteraction (contract_method p) ps of
                  Inl e \<Rightarrow> Inl e
                | Inr u \<Rightarrow>
                    Inr (ContractInteraction \<lparr>gasEstimate = gas, safetyCheck = ''Passed'',
                           estimatedCost = calculateTransactionCost gas\<rparr>))))"

subsection \<open>The task registry\<close>

text \<open>\<open>initializeTasks\<close>: the six names and their handlers.\<close>

definition tasks :: "clients \<Rightarrow> string \<Rightarrow> (task_params \<Rightarrow> thrown + task_data) option" where
  "tasks c =
     map_of
       [(''check_price'', checkPrice c),
        (''monitor_wallet'', monitorWallet c),
        (''execute_trade'', executeTrade c),
        (''analyze_market'', analyzeMarket c),
        (''track_transaction'', trackTransaction c),
        (''smart_contract_interaction'', interactWithContract c)]"

section \<open>AutomationAgent\<close>

text \<open>
  A rule: \<open>{condition, action, params, interval?}\<close>; its \<open>params\<close> is the field
  \<open>rule_params\<close>.
\<close>

record AutomationRule =
  condition :: string
  action :: string
  rule_params :: task_params
  interval :: "jsnum option"

text \<open>
  The state of the agent: the array \<open>rules\<close>, whose removed slots are \<open>null\<close>, and the
  \<open>Map\<close> \<open>activeMonitors\<close> from rule ids to timer handles, in insertion order. The
  runtime's side is kept with it: the interval timers that are scheduled, each with the
  rule its callback evaluates, and the next fresh handle. A handle is an object, hence
  truthy.
\<close>

record automation_state =
  rules :: "AutomationRule option list"
  activeMonitors :: "(nat \<times> nat) list"
  scheduled :: "(nat \<times> AutomationRule) list"
  next_handle :: nat

definition initial_state :: automation_state where
  "initial_state = \<lparr>rules = [], activeMonitors = [], scheduled = [], next_handle = 0\<rparr>"

text \<open>\<open>this.rules[ruleId]\<close>: \<open>undefined\<close> outside the array, and falsy like \<open>null\<close>.\<close>

definition rule_at :: "automation_state \<Rightarrow> nat \<Rightarrow> AutomationRule option" where
  "rule_at st ruleId = (if ruleId < length (rules st) then rules st ! ruleId else None)"

text \<open>
  \<open>startMonitoring\<close>: nothing without a rule or with a falsy interval; otherwise
  \<open>setInterval\<close> schedules a timer for the rule and the handle is stored under the id.
\<close>

definition startMonitoring :: "nat \<Rightarrow> automation_state \<Rightarrow> automation_state" where
  "startMonitoring ruleId st =
     (case rule_at st ruleId of
        None \<Rightarrow> st
      | Some rule \<Rightarrow>
          if \<not> truthy_opt (interval rule) then st
          else
            (let monitor = next_handle st
             in st\<lparr>scheduled := scheduled st @ [(monitor, rule)],
                   next_handle := Suc monitor,
                   activeMonitors := AList.update ruleId monitor (activeMonitors st)\<rparr>))"

text \<open>\<open>stopMonitoring\<close>: \<open>clearInterval\<close> on the stored handle and delete the entry.\<close>

definition stopMonitoring :: "nat \<Rightarrow> automation_state \<Rightarrow> automation_state" where
  "stopMonitoring ruleId st =
     (case map_of (activeMonitors st) ruleId of
        None \<Rightarrow> st
      | Some monitor \<Rightarrow>
          st\<lparr>scheduled := filter (\<lambda>t. fst t \<noteq> monitor) (scheduled st),
             activeMonitors := AList.delete ruleId (activeMonitors st)\<rparr>)"

text \<open>\<open>addRule\<close> returns the id, the length of the array before the push.\<close>

definition addRule :: "AutomationRule \<Rightarrow> automation_state \<Rightarrow> nat \<times> automation_state" where
  "addRule rule st =
     (let ruleId = length (rules st);
          st1 = st\<lparr>rules := rules st @ [Some rule]\<rparr>
      in (ruleId, if truthy_opt (interval rule) then startMonitoring ruleId st1 else st1))"

text \<open>\<open>removeRule\<close>: the id is an integer; inside the range the slot is nulled.\<close>

definition removeRule :: "int \<Rightarrow> automation_state \<Rightarrow> bool \<times> automation_state" where
  "removeRule ruleId st =
     (if ruleId \<ge> 0 \<and> ruleId < int (length (rules st))
      then (True, stopMonitoring (nat ruleId) (st\<lparr>rules := (rules st)[nat ruleId := None]\<rparr>))
      else (False, st))"

text \<open>\<open>getActiveRules\<close>: the pairs \<open>{ruleId, rule}\<close> of the slots that are not null.\<close>

definition getActiveRules :: "automation_state \<Rightarrow> (nat \<times> AutomationRule) list" where
  "getActiveRules st =
     List.map_filter (\<lambda>(index, rule). map_option (\<lambda>r. (index, r)) rule)
       (enumerate 0 (rules st))"

text \<open>
  \<open>stopAllMonitoring\<close>: \<open>forEach\<close> over the entries of the map, in insertion order; each
  callback deletes its own entry only.
\<close>

definition stopAllMonitoring :: "automation_state \<Rightarrow> automation_state" where
  "stopAllMonitoring st =
     fold (\<lambda>(ruleId, monitor) s. stopMonitoring ruleId s) (activeMonitors st) st"

subsection \<open>Histories of operations\<close>

datatype operation = AddRule AutomationRule | RemoveRule int | StopAllMonitoring

fun perform :: "operation \<Rightarrow> automation_state \<Rightarrow> automation_state" where
  "perform (AddRule rule) st = snd (addRule rule st)"
| "perform (RemoveRule ruleId) st = snd (removeRule ruleId st)"
| "perform StopAllMonitoring st = stopAllMonitoring st"

text \<open>The state reached from a fresh agent by a sequence of operations.\<close>

definition run :: "operation list \<Rightarrow> automation_state" where
  "run ops = fold perform ops initial_state"

text \<open>
  The rule ids that have been stopped since they were added, read off the history:
  \<open>n\<close> rules exist before the first operation of the list; \<open>removeRule(i)\<close> stops
  \<open>i\<close> when \<open>i\<close> is one of them, \<open>stopAllMonitoring\<close> stops all of them, and a rule
  added later is not touched by an earlier stop.
\<close>

fun stopped_from :: "nat \<Rightarrow> operation list \<Rightarrow> nat set" where
  "stopped_from n [] = {}"
| "stopped_from n (AddRule rule # ops) = stopped_from (Suc n) ops"
| "stopped_from n (RemoveRule i # ops) =
     (if 0 \<le> i \<and> i < int n then {nat i} else {}) \<union> stopped_from n ops"
| "stopped_from n (StopAllMonitoring # ops) = {0..<n} \<union> stopped_from n ops"

definition stopped :: "operation list \<Rightarrow> nat set" where
  "stopped ops = stopped_from 0 ops"

subsection \<open>Evaluation of a rule\<close>

text \<open>
  Reading a property of the untyped \<open>data\<close> of a result: the property when the object
  has it, \<open>undefined\<close> otherwise.
\<close>

fun prop_price :: "task_data \<Rightarrow> jsnum option" where
  "prop_price (CheckPrice r) = Some (cp_price r)"
| "prop_price d = None"



fun prop_balance :: "task_data \<Rightarrow> string option" where
  "prop_balance (MonitorWallet r) = Some (balance r)"
| "prop_balance d = None"

text \<open>\<open>undefined\<close> as an operand of \<open><\<close> or \<open>*\<close> is NaN.\<close>

fun to_number :: "jsnum option \<Rightarrow> jsnum" where
  "to_number None = NaN"
| "to_number (Some n) = n"

text \<open>The element of a destructured array: \<open>undefined\<close> when the array is shorter.\<close>

definition element :: "'a list \<Rightarrow> nat \<Rightarrow> 'a option" where
  "element xs i = (if i < length xs then Some (xs ! i) else None)"

text \<open>
  \<open>evaluateCondition\<close>: the text before the first colon selects the case, the pieces
  after it are the arguments. \<open>success && ...\<close> reads \<open>data\<close> only after a success.
\<close>

definition evaluateCondition :: "clients \<Rightarrow> string \<Rightarrow> thrown + bool" where
  "evaluateCondition c cond =
     (case split CHR '':'' cond of
        [] \<Rightarrow> Inr False
      | type # ps \<Rightarrow>
          if type = ''price_below_threshold'' then
            (case executeTask (tasks c) ''check_price'' (no_params\<lparr>symbol := element ps 0\<rparr>) of
               Inl e \<Rightarrow> Inl e
             | Inr priceData \<Rightarrow>
                 if \<not> success priceData then Inr False
                 else
                   (case data priceData of
                      None \<Rightarrow> Inl TypeError_reading_message
                    | Some d \<Rightarrow>
                        Inr (js_lt (to_number (prop_price d)) (parseFloat (element ps 1)))))
          else if type = ''wallet_balance_above'' then
            (case executeTask (tasks c) ''monitor_wallet'' (no_params\<lparr>address := element ps 0\<rparr>) of
               Inl e \<Rightarrow> Inl e
             | Inr walletData \<Rightarrow>
                 if \<not> success walletData then Inr False
                 else
                   (case data walletData of
                      None \<Rightarrow> Inl TypeError_reading_message
                    | Some d \<Rightarrow>
                        Inr (js_gt (parseFloat (prop_balance d)) (parseFloat (element ps 1)))))
          else Inr False)"

definition executeAction :: "clients \<Rightarrow> string \<Rightarrow> task_params \<Rightarrow> thrown + task_data TaskResult" where
  "executeAction c act ps = executeTask (tasks c) act ps"

text \<open>
  \<open>evaluateRule\<close>, the body of a tick: the action runs when the condition holds, and
  whatever is thrown is caught and logged.
\<close>

datatype tick = ConditionNotMet | ActionDone "task_data TaskResult" | ErrorLogged thrown

definition evaluateRule :: "clients \<Rightarrow> AutomationRule \<Rightarrow> tick" where
  "evaluateRule c rule =
     (case evaluateCondition c (condition rule) of
        Inl e \<Rightarrow> ErrorLogged e
      | Inr conditionMet \<Rightarrow>
          if conditionMet then
            (case executeAction c (action rule) (rule_params rule) of
               Inl e \<Rightarrow> ErrorLogged e
             | Inr r \<Rightarrow> ActionDone r)
          else ConditionNotMet)"

section \<open>The price-check handlers of the two command routers\<close>











section \<open>Concrete clients, parameters and rules\<close>

text \<open>
  Clients that answer from fixed data: three quoted assets, a wallet of 1.5 ether without
  history, five listed assets, a flat market, and a gas estimate of 46000.
\<close>

definition quote :: "real \<Rightarrow> real \<Rightarrow> PriceData" where
  "quote p ch = \<lparr>price = Fin p, change24h = Fin ch, volume24h = Fin 0, marketCap = Fin 0\<rparr>"

definition listed :: "string \<Rightarrow> real \<Rightarrow> crypto" where
  "listed s ch = \<lparr>crypto_symbol = s, price_change_percentage_24h = Fin ch\<rparr>"

definition mock_getPrice :: "string option \<Rightarrow> thrown + PriceData" where
  "mock_getPrice s =
     (if s = Some ''bitcoin'' then Inr (quote 50000 (- 6))
      else if s = Some ''eth'' then Inr (quote 2500 5)
      else if s = Some ''sol'' then Inr (quote 100 5.0001)
      else Inl (ErrorObj ''Failed to fetch price data''))"

definition mock_clients :: clients where
  "mock_clients =
     \<lparr>getBalance = (\<lambda>a. Inr ''1.5''),
      getTransactionHistory = (\<lambda>a. Inr []),
      getTransactionStatus = (\<lambda>h. Inr ''Pending''),
      getGasPrice = Inr ''20'',
      getPrice = mock_getPrice,
      getTopCryptos =
        (\<lambda>n. Inr [listed ''btc'' 2, listed ''eth'' (- 1), listed ''sol'' 7,
                  listed ''ada'' 3, listed ''xrp'' 9]),
      getMarketStats =
        Inr \<lparr>total_market_cap_usd = Fin 1000, market_cap_change_percentage_24h_usd = Fin 1\<rparr>,
      estimateContractGas = (\<lambda>a b m ps. Inr ''46000''),
      toISOString_now = ''2024-01-01T00:00:00.000Z''\<rparr>"


text \<open>The same clients in a market that rose by 8 percent.\<close>

definition rising_clients :: clients where
  "rising_clients =
     mock_clients\<lparr>getMarketStats :=
       Inr \<lparr>total_market_cap_usd = Fin 1000, market_cap_change_percentage_24h_usd = Fin 8\<rparr>\<rparr>"

text \<open>The same clients when the market client rejects with \<open>undefined\<close>.\<close>

definition nullish_clients :: clients where
  "nullish_clients = mock_clients\<lparr>getPrice := (\<lambda>s. Inl ThrownNullish)\<rparr>"

text \<open>
  Calls of \<open>approve(spender, amount)\<close> on a token contract: with the given spender and
  amount as the two call arguments.
\<close>

definition approve_call :: "string \<Rightarrow> string \<Rightarrow> task_params" where
  "approve_call spender allowance =
     no_params\<lparr>address := Some ''0xdac17f958d2ee523a2206206994597c13d831ec7'',
       abi := Some [], contract_method := Some ''approve'',
       params := Some [JStr spender, JStr allowance]\<rparr>"


definition max_uint256 :: string where
  "max_uint256 = ''0xffffffffffffffffffffffffffffffffffffffffffffffffffffffffffffffff''"

text \<open>A spender that is an ordinary address.\<close>

definition router :: string where
  "router = ''0x1111111254eeb25477b68fb85ed929f73a960582''"

text \<open>Trades of bitcoin with a price threshold.\<close>

definition trade :: "string \<Rightarrow> jsnum option \<Rightarrow> task_params" where
  "trade ty threshold =
     no_params\<lparr>trade_type := Some ty, amount := Some ''0.1'', token := Some ''bitcoin'',
       priceThreshold := threshold\<rparr>"

text \<open>A rule checked every \<open>ms\<close> milliseconds.\<close>

definition alert_rule :: "real \<Rightarrow> AutomationRule" where
  "alert_rule ms =
     \<lparr>condition = ''price_below_threshold:eth:3000'', action = ''execute_trade'',
      rule_params = trade ''buy'' (Some (Fin 3000)), interval = Some (Fin ms)\<rparr>"

text \<open>A rule as above whose interval is given as zero.\<close>

definition zero_interval_rule :: AutomationRule where
  "zero_interval_rule = (alert_rule 60000)\<lparr>interval := Some (Fin 0)\<rparr>"

text \<open>A history: a timed rule, a rule with interval zero, a shutdown, one more timed rule.\<close>

definition sample_history :: "operation list" where
  "sample_history =
     [AddRule (alert_rule 60000), AddRule zero_interval_rule, StopAllMonitoring,
      AddRule (alert_rule 1000)]"


section \<open>Properties of the state of the rule engine\<close>

text \<open>The rule ids that have an entry in \<open>activeMonitors\<close>.\<close>

definition monitored :: "automation_state \<Rightarrow> nat set" where
  "monitored st = fst ` set (activeMonitors st)"

text \<open>The slot \<open>r\<close> holds a rule whose interval is truthy.\<close>

definition timed_rule_at :: "automation_state \<Rightarrow> nat \<Rightarrow> bool" where
  "timed_rule_at st r =
     (case rule_at st r of None \<Rightarrow> False | Some rule \<Rightarrow> truthy_opt (interval rule))"

text \<open>
  The invariant, with the set \<open>S\<close> of the ids stopped so far: only existing ids have
  been stopped, and the monitored ids are those of the timed rules outside \<open>S\<close>.
\<close>

definition monitor_inv :: "automation_state \<Rightarrow> nat set \<Rightarrow> bool" where
  "monitor_inv st S =
     (S \<subseteq> {0..<length (rules st)}
      \<and> monitored st = {r. timed_rule_at st r \<and> r \<notin> S})"

text \<open>No call of a client rejects with \<open>null\<close> or \<open>undefined\<close>.\<close>

definition never_nullish :: "clients \<Rightarrow> bool" where
  "never_nullish c =
     ((\<forall>a. getBalance c a \<noteq> Inl ThrownNullish)
      \<and> (\<forall>a. getTransactionHistory c a \<noteq> Inl ThrownNullish)
      \<and> (\<forall>h. getTransactionStatus c h \<noteq> Inl ThrownNullish)
      \<and> getGasPrice c \<noteq> Inl ThrownNullish
      \<and> (\<forall>s. getPrice c s \<noteq> Inl ThrownNullish)
      \<and> (\<forall>n. getTopCryptos c n \<noteq> Inl ThrownNullish)
      \<and> getMarketStats c \<noteq> Inl ThrownNullish
      \<and> (\<forall>a b m ps. estimateContractGas c a b m ps \<noteq> Inl ThrownNullish))"

section \<open>Uniform results of the registry\<close>

lemma tasks_registered:
  "tasks c name \<noteq> None \<longleftrightarrow>
     name \<in> {''check_price'', ''monitor_wallet'', ''execute_trade'', ''analyze_market'',
              ''track_transaction'', ''smart_contract_interaction''}"
  by (simp add: tasks_def)

lemma handlers_never_nullish:
  assumes "never_nullish c"
  shows "checkPrice c p \<noteq> Inl ThrownNullish"
    and "monitorWallet c p \<noteq> Inl ThrownNullish"
    and "executeTrade c p \<noteq> Inl ThrownNullish"
    and "analyzeMarket c p \<noteq> Inl ThrownNullish"
    and "trackTransaction c p \<noteq> Inl ThrownNullish"
    and "interactWithContract c p \<noteq> Inl ThrownNullish"
proof -
  from assms show "checkPrice c p \<noteq> Inl ThrownNullish"
    by (auto simp add: never_nullish_def checkPrice_def split: sum.splits)
  from assms show "monitorWallet c p \<noteq> Inl ThrownNullish"
    by (auto simp add: never_nullish_def monitorWallet_def split: sum.splits)
  from assms show "executeTrade c p \<noteq> Inl ThrownNullish"
    by (auto simp add: never_nullish_def executeTrade_def split: sum.splits option.splits)
  from assms show "analyzeMarket c p \<noteq> Inl ThrownNullish"
    by (auto simp add: never_nullish_def analyzeMarket_def split: sum.splits)
  from assms show "trackTransaction c p \<noteq> Inl ThrownNullish"
    by (auto simp add: never_nullish_def trackTransaction_def split: sum.splits)
  from assms show "interactWithContract c p \<noteq> Inl ThrownNullish"
    by (auto simp add: never_nullish_def interactWithContract_def TypeError_not_iterable_def
        validateContractInteraction_def validateHighRiskOperation_def
        split: sum.splits option.splits)
qed

lemma registered_handler:
  assumes "tasks c taskName = Some task"
  shows "task = checkPrice c \<or> task = monitorWallet c \<or> task = executeTrade c
    \<or> task = analyzeMarket c \<or> task = trackTransaction c \<or> task = interactWithContract c"
  using assms by (auto simp add: tasks_def split: if_splits)

lemma executeTask_raises_iff:
  "(\<exists>e. executeTask reg taskName ps = Inl e) \<longleftrightarrow>
     (\<exists>task. reg taskName = Some task \<and> task ps = Inl ThrownNullish)"
  by (auto simp add: executeTask_def split: option.splits sum.splits thrown.splits)

lemma agent_never_raises:
  assumes "never_nullish c"
  shows "\<exists>r. executeTask (tasks c) taskName ps = Inr r"
proof -
  have "\<not> (\<exists>task. tasks c taskName = Some task \<and> task ps = Inl ThrownNullish)"
    using handlers_never_nullish [OF assms, of ps] registered_handler [of c taskName]
    by blast
  then have "\<not> (\<exists>e. executeTask (tasks c) taskName ps = Inl e)"
    using executeTask_raises_iff [of "tasks c" taskName ps] by blast
  then show ?thesis
    by (cases "executeTask (tasks c) taskName ps") auto
qed

text \<open>
  C1, as amended. \<open>executeTask\<close> returns: for a name without a task, the failure
  \<open>Task '<name>' not found\<close>; for a task whose handler resolves with \<open>v\<close>, the
  success carrying \<open>v\<close>; for a task whose handler throws an error object, the failure
  carrying that error's message. It raises exactly when the name has a task and the
  handler rejects with \<open>null\<close> or \<open>undefined\<close>; so for the six tasks of the agent
  it never raises, whatever the name and the parameters, as long as no client rejects
  with \<open>null\<close> or \<open>undefined\<close>.
\<close>

theorem executeTask_raises_only_on_nullish:
  "(reg taskName = None \<longrightarrow>
      executeTask reg taskName ps =
        Inr \<lparr>success = False, data = None,
             error = Some (''Task '' @ [CHR 0x27] @ taskName @ [CHR 0x27] @ '' not found'')\<rparr>)
   \<and> (\<forall>task v. reg taskName = Some task \<and> task ps = Inr v \<longrightarrow>
        executeTask reg taskName ps = Inr \<lparr>success = True, data = Some v, error = None\<rparr>)
   \<and> (\<forall>task msg. reg taskName = Some task \<and> task ps = Inl (ErrorObj msg) \<longrightarrow>
        executeTask reg taskName ps = Inr \<lparr>success = False, data = None, error = Some msg\<rparr>)
   \<and> ((\<exists>e. executeTask reg taskName ps = Inl e) \<longleftrightarrow>
        (\<exists>task. reg taskName = Some task \<and> task ps = Inl ThrownNullish))
   \<and> (never_nullish c \<longrightarrow> (\<exists>r. executeTask (tasks c) name q = Inr r))"
proof -
  have "reg taskName = None \<longrightarrow>
      executeTask reg taskName ps =
        Inr \<lparr>success = False, data = None,
             error = Some (''Task '' @ [CHR 0x27] @ taskName @ [CHR 0x27] @ '' not found'')\<rparr>"
    by (simp add: executeTask_def)
  moreover have "\<forall>task v. reg taskName = Some task \<and> task ps = Inr v \<longrightarrow>
        executeTask reg taskName ps = Inr \<lparr>success = True, data = Some v, error = None\<rparr>"
    by (simp add: executeTask_def)
  moreover have "\<forall>task msg. reg taskName = Some task \<and> task ps = Inl (ErrorObj msg) \<longrightarrow>
        executeTask reg taskName ps = Inr \<lparr>success = False, data = None, error = Some msg\<rparr>"
    by (simp add: executeTask_def)
  moreover note executeTask_raises_iff [of reg taskName ps]
  moreover have "never_nullish c \<longrightarrow> (\<exists>r. executeTask (tasks c) name q = Inr r)"
    using agent_never_raises [of c name q] by blast
  ultimately show ?thesis by blast
qed

lemma mock_clients_never_nullish: "never_nullish mock_clients"
  by (simp add: never_nullish_def mock_clients_def mock_getPrice_def)

theorem executeTask_raises_only_on_nullish_witness:
  "executeTask (tasks mock_clients) ''stake'' no_params =
     Inr \<lparr>success = False, data = None, error = Some ''Task 'stake' not found''\<rparr>
   \<and> executeTask (tasks mock_clients) ''check_price'' (no_params\<lparr>symbol := Some ''bitcoin''\<rparr>) =
     Inr \<lparr>success = True,
          data = Some (CheckPrice \<lparr>cp_price = Fin 50000, cp_change24h = Fin (- 6),
                         cp_recommendation = ''Potential Buying Opportunity''\<rparr>),
          error = None\<rparr>
   \<and> executeTask (tasks mock_clients) ''check_price'' (no_params\<lparr>symbol := Some ''doge''\<rparr>) =
     Inr \<lparr>success = False, data = None, error = Some ''Failed to fetch price data''\<rparr>
   \<and> (\<exists>r. executeTask (tasks mock_clients) ''track_transaction'' no_params = Inr r)"
proof -
  have unknown: "tasks mock_clients ''stake'' = None"
    by (simp add: tasks_def)
  have known: "tasks mock_clients ''check_price'' = Some (checkPrice mock_clients)"
    by (simp add: tasks_def)
  have resolves: "checkPrice mock_clients (no_params\<lparr>symbol := Some ''bitcoin''\<rparr>) =
      Inr (CheckPrice \<lparr>cp_price = Fin 50000, cp_change24h = Fin (- 6),
             cp_recommendation = ''Potential Buying Opportunity''\<rparr>)"
    by (simp add: checkPrice_def mock_clients_def mock_getPrice_def quote_def no_params_def
        analyzePriceMovement_def js_gt_def)
  have rejects: "checkPrice mock_clients (no_params\<lparr>symbol := Some ''doge''\<rparr>) =
      Inl (ErrorObj ''Failed to fetch price data'')"
    by (simp add: checkPrice_def mock_clients_def mock_getPrice_def no_params_def)
  note a = executeTask_raises_only_on_nullish [where reg = "tasks mock_clients"
      and taskName = "''stake''" and ps = no_params and c = mock_clients
      and name = "''track_transaction''" and q = no_params]
  note b = executeTask_raises_only_on_nullish [where reg = "tasks mock_clients"
      and taskName = "''check_price''" and ps = "no_params\<lparr>symbol := Some ''bitcoin''\<rparr>"
      and c = mock_clients and name = "''track_transaction''" and q = no_params]
  note d = executeTask_raises_only_on_nullish [where reg = "tasks mock_clients"
      and taskName = "''check_price''" and ps = "no_params\<lparr>symbol := Some ''doge''\<rparr>"
      and c = mock_clients and name = "''track_transaction''" and q = no_params]
  have 1: "executeTask (tasks mock_clients) ''stake'' no_params =
     Inr \<lparr>success = False, data = None, error = Some ''Task 'stake' not found''\<rparr>"
    using a [THEN conjunct1] unknown by simp
  have 2: "executeTask (tasks mock_clients) ''check_price'' (no_params\<lparr>symbol := Some ''bitcoin''\<rparr>) =
     Inr \<lparr>success = True,
          data = Some (CheckPrice \<lparr>cp_price = Fin 50000, cp_change24h = Fin (- 6),
                         cp_recommendation = ''Potential Buying Opportunity''\<rparr>),
          error = None\<rparr>"
    using b [THEN conjunct2, THEN conjunct1] known resolves by simp
  have 3: "executeTask (tasks mock_clients) ''check_price'' (no_params\<lparr>symbol := Some ''doge''\<rparr>) =
     Inr \<lparr>success = False, data = None, error = Some ''Failed to fetch price data''\<rparr>"
    using d [THEN conjunct2, THEN conjunct2, THEN conjunct1] known rejects by simp
  have 4: "\<exists>r. executeTask (tasks mock_clients) ''track_transaction'' no_params = Inr r"
    using a [THEN conjunct2, THEN conjunct2, THEN conjunct2, THEN conjunct2]
      mock_clients_never_nullish by blast
  from 1 2 3 4 show ?thesis by blast
qed

text \<open>
  C1 as stated fails when the market client rejects with \<open>undefined\<close>: the handler
  of the registered task \<open>check_price\<close> rejects with it, the \<open>catch\<close> block reads
  \<open>error.message\<close>, and the TypeError of that read leaves \<open>executeTask\<close>.
\<close>

theorem nullish_rejection_counterexample:
  "tasks nullish_clients ''check_price'' = Some (checkPrice nullish_clients)
   \<and> checkPrice nullish_clients (no_params\<lparr>symbol := Some ''bitcoin''\<rparr>) = Inl ThrownNullish
   \<and> executeTask (tasks nullish_clients) ''check_price'' (no_params\<lparr>symbol := Some ''bitcoin''\<rparr>) =
       Inl TypeError_reading_message"
  by (simp add: executeTask_def tasks_def checkPrice_def nullish_clients_def)

section \<open>Price recommendation\<close>

lemma js_gt_lt_exclusive: "js_gt a (Fin 5) \<Longrightarrow> \<not> js_lt a (Fin (- 5))"
  by (cases a) (simp_all add: js_gt_def)

text \<open>
  C5. The recommendation of \<open>check_price\<close> is \<open>Consider Taking Profits\<close> exactly when
  the 24h change is greater than 5, \<open>Potential Buying Opportunity\<close> exactly when it is
  less than -5, and \<open>Market Stable\<close> exactly when it is neither; at a change of 5 it is
  not \<open>Consider Taking Profits\<close>. When the price fetch resolves, \<open>checkPrice\<close> returns
  the price, the change and this recommendation.
\<close>

theorem check_price_recommendation:
  "(analyzePriceMovement pd = ''Consider Taking Profits'' \<longleftrightarrow> js_gt (change24h pd) (Fin 5))
   \<and> (analyzePriceMovement pd = ''Potential Buying Opportunity'' \<longleftrightarrow>
        js_lt (change24h pd) (Fin (- 5)))
   \<and> (analyzePriceMovement pd = ''Market Stable'' \<longleftrightarrow>
        \<not> js_gt (change24h pd) (Fin 5) \<and> \<not> js_lt (change24h pd) (Fin (- 5)))
   \<and> (change24h pd = Fin 5 \<longrightarrow> analyzePriceMovement pd \<noteq> ''Consider Taking Profits'')
   \<and> (getPrice c (symbol p) = Inr pd \<longrightarrow>
        checkPrice c p =
          Inr (CheckPrice \<lparr>cp_price = price pd, cp_change24h = change24h pd,
                 cp_recommendation = analyzePriceMovement pd\<rparr>))"
  using js_gt_lt_exclusive [of "change24h pd"]
  by (auto simp add: analyzePriceMovement_def checkPrice_def js_gt_def)

theorem check_price_recommendation_witness:
  "change24h (quote 2500 5) = Fin 5
   \<and> getPrice mock_clients (symbol (no_params\<lparr>symbol := Some ''eth''\<rparr>)) = Inr (quote 2500 5)
   \<and> analyzePriceMovement (quote 2500 5) \<noteq> ''Consider Taking Profits''
   \<and> checkPrice mock_clients (no_params\<lparr>symbol := Some ''eth''\<rparr>) =
       Inr (CheckPrice \<lparr>cp_price = Fin 2500, cp_change24h = Fin 5,
              cp_recommendation = analyzePriceMovement (quote 2500 5)\<rparr>)
   \<and> analyzePriceMovement (quote 100 5.0001) = ''Consider Taking Profits''"
proof -
  have boundary: "change24h (quote 2500 5) = Fin 5"
    by (simp add: quote_def)
  have fetched: "getPrice mock_clients (symbol (no_params\<lparr>symbol := Some ''eth''\<rparr>)) =
      Inr (quote 2500 5)"
    by (simp add: mock_clients_def mock_getPrice_def no_params_def)
  have above: "js_gt (change24h (quote 100 5.0001)) (Fin 5)"
    by (simp add: quote_def js_gt_def)
  from check_price_recommendation [of "quote 2500 5" mock_clients
      "no_params\<lparr>symbol := Some ''eth''\<rparr>"]
    check_price_recommendation [of "quote 100 5.0001" mock_clients no_params]
    boundary fetched above
  show ?thesis by (simp add: quote_def js_gt_def)
qed

section \<open>Trades and the price threshold\<close>

lemma execute_trade_registered: "tasks c ''execute_trade'' = Some (executeTrade c)"
  by (simp add: tasks_def)

text \<open>
  C4, as amended. When the price fetch resolves and a threshold is given that is truthy
  (neither zero nor NaN): a \<open>buy\<close> at a price above the threshold fails with
  \<open>Price above threshold\<close>, a \<open>sell\<close> at a price below it fails with
  \<open>Price below threshold\<close>, and in every other case the record
  \<open>{type, amount, token, executionPrice, timestamp}\<close> is returned with the fetched
  price as \<open>executionPrice\<close>.
\<close>

theorem execute_trade_threshold:
  assumes "getPrice c (token p) = Inr currentPrice"
    and "priceThreshold p = Some threshold"
    and "truthy threshold"
  shows "(trade_type p = Some ''buy'' \<and> js_gt (price currentPrice) threshold \<longrightarrow>
            executeTrade c p = Inl (ErrorObj ''Price above threshold'')
            \<and> executeTask (tasks c) ''execute_trade'' p =
                Inr \<lparr>success = False, data = None, error = Some ''Price above threshold''\<rparr>)
       \<and> (trade_type p = Some ''sell'' \<and> js_lt (price currentPrice) threshold \<longrightarrow>
            executeTrade c p = Inl (ErrorObj ''Price below threshold'')
            \<and> executeTask (tasks c) ''execute_trade'' p =
                Inr \<lparr>success = False, data = None, error = Some ''Price below threshold''\<rparr>)
       \<and> (\<not> (trade_type p = Some ''buy'' \<and> js_gt (price currentPrice) threshold)
            \<and> \<not> (trade_type p = Some ''sell'' \<and> js_lt (price currentPrice) threshold) \<longrightarrow>
            executeTrade c p =
              Inr (ExecuteTrade \<lparr>et_type = trade_type p, et_amount = amount p,
                     et_token = token p, executionPrice = price currentPrice,
                     timestamp = toISOString_now c\<rparr>))"
  using assms
  by (auto simp add: executeTrade_def executed_trade_def executeTask_def execute_trade_registered)

theorem execute_trade_threshold_witness:
  "executeTask (tasks mock_clients) ''execute_trade'' (trade ''buy'' (Some (Fin 45000))) =
     Inr \<lparr>success = False, data = None, error = Some ''Price above threshold''\<rparr>
   \<and> executeTask (tasks mock_clients) ''execute_trade'' (trade ''sell'' (Some (Fin 60000))) =
     Inr \<lparr>success = False, data = None, error = Some ''Price below threshold''\<rparr>
   \<and> executeTrade mock_clients (trade ''buy'' (Some (Fin 60000))) =
     Inr (ExecuteTrade \<lparr>et_type = Some ''buy'', et_amount = Some ''0.1'',
            et_token = Some ''bitcoin'', executionPrice = Fin 50000,
            timestamp = ''2024-01-01T00:00:00.000Z''\<rparr>)"
proof -
  have fetched: "getPrice mock_clients (token (trade ty th)) = Inr (quote 50000 (- 6))" for ty th
    by (simp add: mock_clients_def mock_getPrice_def trade_def no_params_def)
  have given: "priceThreshold (trade ty (Some th)) = Some th" for ty th
    by (simp add: trade_def no_params_def)
  have kind: "trade_type (trade ty th) = Some ty" for ty th
    by (simp add: trade_def no_params_def)
  have fields: "amount (trade ty th) = Some ''0.1''" "token (trade ty th) = Some ''bitcoin''" for ty th
    by (simp_all add: trade_def no_params_def)
  have clock: "toISOString_now mock_clients = ''2024-01-01T00:00:00.000Z''"
    by (simp add: mock_clients_def)
  have p: "price (quote 50000 (- 6)) = Fin 50000"
    by (simp add: quote_def)
  from execute_trade_threshold [OF fetched given, of "Fin 45000" "''buy''"]
    execute_trade_threshold [OF fetched given, of "Fin 60000" "''sell''"]
    execute_trade_threshold [OF fetched given, of "Fin 60000" "''buy''"]
  show ?thesis
    by (simp add: kind fields clock p js_gt_def)
qed

text \<open>
  C4 as stated fails for a threshold of zero: the threshold is given, the order is a
  \<open>buy\<close>, the fetched price 50000 is above it, and the trade is executed.
\<close>

theorem execute_trade_zero_threshold_counterexample:
  "priceThreshold (trade ''buy'' (Some (Fin 0))) = Some (Fin 0)
   \<and> trade_type (trade ''buy'' (Some (Fin 0))) = Some ''buy''
   \<and> getPrice mock_clients (token (trade ''buy'' (Some (Fin 0)))) = Inr (quote 50000 (- 6))
   \<and> js_gt (price (quote 50000 (- 6))) (Fin 0)
   \<and> executeTrade mock_clients (trade ''buy'' (Some (Fin 0))) =
       Inr (ExecuteTrade \<lparr>et_type = Some ''buy'', et_amount = Some ''0.1'',
              et_token = Some ''bitcoin'', executionPrice = Fin 50000,
              timestamp = ''2024-01-01T00:00:00.000Z''\<rparr>)
   \<and> executeTrade mock_clients (trade ''buy'' (Some (Fin 0))) \<noteq>
       Inl (ErrorObj ''Price above threshold'')"
  by (simp add: executeTrade_def executed_trade_def trade_def no_params_def mock_clients_def
      mock_getPrice_def quote_def js_gt_def)

text \<open>
  C10. With a threshold of zero \<open>execute_trade\<close> does what it does without a
  threshold, for the handler and through \<open>executeTask\<close>: the result is the rejection
  of the price fetch or the executed trade, whatever the price and the order type, so
  neither threshold error arises from the guard; when the fetch resolves the task reports
  success.
\<close>

theorem zero_threshold_is_no_threshold:
  "executeTrade c (p\<lparr>priceThreshold := Some (Fin 0)\<rparr>) = executeTrade c (p\<lparr>priceThreshold := None\<rparr>)
   \<and> executeTask (tasks c) ''execute_trade'' (p\<lparr>priceThreshold := Some (Fin 0)\<rparr>) =
       executeTask (tasks c) ''execute_trade'' (p\<lparr>priceThreshold := None\<rparr>)
   \<and> executeTrade c (p\<lparr>priceThreshold := Some (Fin 0)\<rparr>) =
       (case getPrice c (token p) of
          Inl e \<Rightarrow> Inl e
        | Inr currentPrice \<Rightarrow>
            Inr (ExecuteTrade \<lparr>et_type = trade_type p, et_amount = amount p,
                   et_token = token p, executionPrice = price currentPrice,
                   timestamp = toISOString_now c\<rparr>))
   \<and> (\<forall>currentPrice. getPrice c (token p) = Inr currentPrice \<longrightarrow>
        executeTask (tasks c) ''execute_trade'' (p\<lparr>priceThreshold := Some (Fin 0)\<rparr>) =
          Inr \<lparr>success = True,
               data = Some (ExecuteTrade \<lparr>et_type = trade_type p, et_amount = amount p,
                              et_token = token p, executionPrice = price currentPrice,
                              timestamp = toISOString_now c\<rparr>),
               error = None\<rparr>)"
  by (auto simp add: executeTrade_def executed_trade_def executeTask_def execute_trade_registered
      split: sum.splits)

theorem zero_threshold_is_no_threshold_witness:
  "executeTask (tasks mock_clients) ''execute_trade'' (trade ''buy'' (Some (Fin 0))) =
     Inr \<lparr>success = True,
          data = Some (ExecuteTrade \<lparr>et_type = Some ''buy'', et_amount = Some ''0.1'',
                         et_token = Some ''bitcoin'', executionPrice = Fin 50000,
                         timestamp = ''2024-01-01T00:00:00.000Z''\<rparr>),
          error = None\<rparr>
   \<and> executeTask (tasks mock_clients) ''execute_trade'' (trade ''sell'' (Some (Fin 0))) =
     Inr \<lparr>success = True,
          data = Some (ExecuteTrade \<lparr>et_type = Some ''sell'', et_amount = Some ''0.1'',
                         et_token = Some ''bitcoin'', executionPrice = Fin 50000,
                         timestamp = ''2024-01-01T00:00:00.000Z''\<rparr>),
          error = None\<rparr>"
proof -
  have fetched: "getPrice mock_clients (token (trade ty None)) = Inr (quote 50000 (- 6))" for ty
    by (simp add: mock_clients_def mock_getPrice_def trade_def no_params_def)
  have zero: "trade ty (Some (Fin 0)) = (trade ty None)\<lparr>priceThreshold := Some (Fin 0)\<rparr>" for ty
    by (simp add: trade_def)
  have fields: "trade_type (trade ty None) = Some ty" "amount (trade ty None) = Some ''0.1''"
    "token (trade ty None) = Some ''bitcoin''" for ty
    by (simp_all add: trade_def no_params_def)
  have clock: "toISOString_now mock_clients = ''2024-01-01T00:00:00.000Z''"
    by (simp add: mock_clients_def)
  have p: "price (quote 50000 (- 6)) = Fin 50000"
    by (simp add: quote_def)
  note buy = zero_threshold_is_no_threshold [of mock_clients "trade ''buy'' None",
      THEN conjunct2, THEN conjunct2, THEN conjunct2, rule_format, OF fetched]
  note sell = zero_threshold_is_no_threshold [of mock_clients "trade ''sell'' None",
      THEN conjunct2, THEN conjunct2, THEN conjunct2, rule_format, OF fetched]
  from buy sell show ?thesis
    by (simp add: zero fields clock p)
qed

section \<open>Rules and their monitors\<close>

lemma getActiveRules_iff:
  "(i, r) \<in> set (getActiveRules st) \<longleftrightarrow> i < length (rules st) \<and> rules st ! i = Some r"
proof -
  have "(i, r) \<in> set (List.map_filter (\<lambda>(index, rule). map_option (\<lambda>r. (index, r)) rule) ps)
      \<longleftrightarrow> (i, Some r) \<in> set ps" for ps :: "(nat \<times> AutomationRule option) list"
    by (induction ps) (auto split: option.splits)
  then show ?thesis
    by (auto simp add: getActiveRules_def in_set_enumerate_eq)
qed

lemma stopMonitoring_rules [simp]: "rules (stopMonitoring k st) = rules st"
  by (simp add: stopMonitoring_def split: option.splits)

lemma stopMonitoring_monitored [simp]:
  "monitored (stopMonitoring k st) = monitored st - {k}"
proof (cases "map_of (activeMonitors st) k")
  case None
  then have "k \<notin> fst ` set (activeMonitors st)"
    by (simp add: map_of_eq_None_iff)
  with None show ?thesis
    by (simp add: stopMonitoring_def monitored_def)
next
  case (Some m)
  then show ?thesis
    by (auto simp add: stopMonitoring_def monitored_def AList.delete_eq)
qed

lemma stopMonitoring_absent:
  "k \<notin> monitored st \<Longrightarrow> stopMonitoring k st = st"
  by (simp add: stopMonitoring_def monitored_def map_of_eq_None_iff [symmetric])

lemma startMonitoring_rules [simp]: "rules (startMonitoring k st) = rules st"
  by (simp add: startMonitoring_def Let_def split: option.splits)

lemma startMonitoring_monitored:
  "monitored (startMonitoring k st) =
     (if \<exists>rule. rule_at st k = Some rule \<and> truthy_opt (interval rule)
      then insert k (monitored st) else monitored st)"
  by (auto simp add: startMonitoring_def monitored_def Let_def AList.dom_update split: option.splits)

lemma monitored_rules_update [simp]: "monitored (st\<lparr>rules := rs\<rparr>) = monitored st"
  by (simp add: monitored_def)

lemma addRule_rules [simp]: "rules (snd (addRule rule st)) = rules st @ [Some rule]"
  by (simp add: addRule_def Let_def)

lemma addRule_monitored:
  "monitored (snd (addRule rule st)) =
     (if truthy_opt (interval rule) then insert (length (rules st)) (monitored st)
      else monitored st)"
  by (simp add: addRule_def Let_def startMonitoring_monitored rule_at_def)

lemma removeRule_rules:
  "rules (snd (removeRule i st)) =
     (if 0 \<le> i \<and> i < int (length (rules st)) then (rules st)[nat i := None] else rules st)"
  by (simp add: removeRule_def)

lemma removeRule_monitored:
  "monitored (snd (removeRule i st)) =
     (if 0 \<le> i \<and> i < int (length (rules st)) then monitored st - {nat i} else monitored st)"
  by (simp add: removeRule_def)

lemma fold_stopMonitoring:
  "rules (fold (\<lambda>(ruleId, monitor) s. stopMonitoring ruleId s) al st) = rules st
   \<and> monitored (fold (\<lambda>(ruleId, monitor) s. stopMonitoring ruleId s) al st) =
       monitored st - fst ` set al"
  by (induction al arbitrary: st) (auto simp add: split_def)

lemma stopAllMonitoring_rules [simp]: "rules (stopAllMonitoring st) = rules st"
  by (simp add: stopAllMonitoring_def fold_stopMonitoring)

lemma stopAllMonitoring_monitored [simp]: "monitored (stopAllMonitoring st) = {}"
  by (simp add: stopAllMonitoring_def fold_stopMonitoring) (simp add: monitored_def)

text \<open>
  C2, as amended. For a rule id inside the range of the rule collection: \<open>removeRule\<close>
  returns true, the id is then absent from \<open>getActiveRules\<close>, and a second
  \<open>removeRule\<close> with the same id returns true again and leaves the state as it is.
\<close>

theorem removeRule_then_again:
  assumes "0 \<le> ruleId" and "ruleId < int (length (rules st))"
  shows "fst (removeRule ruleId st) = True
    \<and> nat ruleId \<notin> fst ` set (getActiveRules (snd (removeRule ruleId st)))
    \<and> removeRule ruleId (snd (removeRule ruleId st)) = (True, snd (removeRule ruleId st))"
proof -
  let ?st' = "snd (removeRule ruleId st)"
  have first: "fst (removeRule ruleId st) = True"
    using assms by (simp add: removeRule_def)
  have slot: "rules ?st' = (rules st)[nat ruleId := None]"
    using assms by (simp add: removeRule_rules)
  have "rules ?st' ! nat ruleId = None"
    using assms by (simp add: slot)
  then have absent: "nat ruleId \<notin> fst ` set (getActiveRules ?st')"
    by (auto simp add: getActiveRules_iff)
  have gone: "nat ruleId \<notin> monitored ?st'"
    using assms by (simp add: removeRule_monitored)
  have "(rules ?st')[nat ruleId := None] = rules ?st'"
    by (simp add: slot)
  then have same: "?st'\<lparr>rules := (rules ?st')[nat ruleId := None]\<rparr> = ?st'"
    by simp
  have range: "0 \<le> ruleId \<and> ruleId < int (length (rules ?st'))"
    using assms by (simp add: slot)
  have "removeRule ruleId ?st' =
      (True, stopMonitoring (nat ruleId) (?st'\<lparr>rules := (rules ?st')[nat ruleId := None]\<rparr>))"
    using range unfolding removeRule_def [of ruleId ?st'] by simp
  also have "\<dots> = (True, ?st')"
    by (simp only: same stopMonitoring_absent [OF gone])
  finally have second: "removeRule ruleId ?st' = (True, ?st')" .
  from first absent second show ?thesis by simp
qed


theorem removeRule_then_again_witness:
  "(0::int) \<le> 0 \<and> (0::int) < int (length (rules (run [AddRule (alert_rule 60000)])))
   \<and> fst (removeRule 0 (run [AddRule (alert_rule 60000)])) = True
   \<and> nat 0 \<notin> fst ` set (getActiveRules (snd (removeRule 0 (run [AddRule (alert_rule 60000)]))))
   \<and> removeRule 0 (snd (removeRule 0 (run [AddRule (alert_rule 60000)]))) =
       (True, snd (removeRule 0 (run [AddRule (alert_rule 60000)])))"
proof -
  have len: "(0::int) < int (length (rules (run [AddRule (alert_rule 60000)])))"
    by (simp add: run_def initial_state_def)
  from removeRule_then_again [of 0 "run [AddRule (alert_rule 60000)]"] len
  show ?thesis by simp
qed

text \<open>
  C2 as stated fails: after one rule has been added, both the first and the second
  \<open>removeRule(0)\<close> return true.
\<close>

theorem removeRule_second_call_counterexample:
  "rules (run [AddRule (alert_rule 60000)]) = [Some (alert_rule 60000)]
   \<and> fst (removeRule 0 (run [AddRule (alert_rule 60000)])) = True
   \<and> fst (removeRule 0 (snd (removeRule 0 (run [AddRule (alert_rule 60000)])))) = True"
  by (simp add: run_def initial_state_def removeRule_def removeRule_rules)

lemma timed_rule_bound: "timed_rule_at st r \<Longrightarrow> r < length (rules st)"
  by (auto simp add: timed_rule_at_def rule_at_def split: if_splits option.splits)

lemma timed_rule_at_iff:
  "timed_rule_at st r \<longleftrightarrow> (\<exists>rule. rule_at st r = Some rule \<and> truthy_opt (interval rule))"
  by (auto simp add: timed_rule_at_def split: option.splits)

lemma inv_addRule:
  assumes "monitor_inv st S"
  shows "monitor_inv (snd (addRule rule st)) S"
proof -
  have timed': "timed_rule_at (snd (addRule rule st)) r \<longleftrightarrow>
      timed_rule_at st r \<or> (r = length (rules st) \<and> truthy_opt (interval rule))" for r
    by (auto simp add: timed_rule_at_def rule_at_def nth_append split: if_splits option.splits)
  have fresh: "length (rules st) \<notin> S" "\<not> timed_rule_at st (length (rules st))"
    using assms timed_rule_bound [of st "length (rules st)"] by (auto simp add: monitor_inv_def)
  show ?thesis
    using assms fresh unfolding monitor_inv_def
    by (auto simp add: addRule_monitored timed')
qed

lemma inv_removeRule:
  assumes "monitor_inv st S"
  shows "monitor_inv (snd (removeRule i st))
     (S \<union> (if 0 \<le> i \<and> i < int (length (rules st)) then {nat i} else {}))"
proof (cases "0 \<le> i \<and> i < int (length (rules st))")
  case False
  with assms show ?thesis
    by (auto simp add: removeRule_def)
next
  case True
  have timed': "timed_rule_at (snd (removeRule i st)) r \<longleftrightarrow> timed_rule_at st r \<and> r \<noteq> nat i" for r
    using True
    by (auto simp add: timed_rule_at_def rule_at_def removeRule_rules nth_list_update
        split: if_splits option.splits)
  show ?thesis
    using assms True unfolding monitor_inv_def
    by (auto simp add: removeRule_monitored removeRule_rules timed')
qed

lemma inv_stopAllMonitoring:
  assumes "monitor_inv st S"
  shows "monitor_inv (stopAllMonitoring st) (S \<union> {0..<length (rules st)})"
proof -
  have timed': "timed_rule_at (stopAllMonitoring st) r \<longleftrightarrow> timed_rule_at st r" for r
    by (simp add: timed_rule_at_def rule_at_def)
  show ?thesis
    using assms timed_rule_bound [of st] unfolding monitor_inv_def
    by (auto simp add: timed')
qed

lemma removeRule_length [simp]: "length (rules (snd (removeRule i st))) = length (rules st)"
  by (simp add: removeRule_rules)

lemma length_rules_perform:
  "length (rules (perform op st)) =
     (case op of AddRule rule \<Rightarrow> Suc (length (rules st)) | _ \<Rightarrow> length (rules st))"
  by (cases op) (simp_all add: removeRule_rules)

lemma inv_fold:
  "monitor_inv st S \<Longrightarrow> monitor_inv (fold perform ops st) (S \<union> stopped_from (length (rules st)) ops)"
proof (induction ops arbitrary: st S)
  case Nil
  then show ?case by simp
next
  case (Cons op ops)
  show ?case
  proof (cases op)
    case (AddRule rule)
    from Cons.IH [OF inv_addRule [OF Cons.prems, of rule]] AddRule
    show ?thesis by simp
  next
    case (RemoveRule i)
    from Cons.IH [OF inv_removeRule [OF Cons.prems, of i]] RemoveRule
    show ?thesis by (cases "0 \<le> i \<and> i < int (length (rules st))") (auto simp add: Un_assoc)
  next
    case StopAllMonitoring
    from Cons.IH [OF inv_stopAllMonitoring [OF Cons.prems]] StopAllMonitoring
    show ?thesis by (simp add: Un_assoc)
  qed
qed

lemma inv_initial: "monitor_inv initial_state {}"
  by (simp add: monitor_inv_def initial_state_def monitored_def timed_rule_at_def rule_at_def)

text \<open>
  C3, as amended. In every state reached by \<open>addRule\<close>, \<open>removeRule\<close> and
  \<open>stopAllMonitoring\<close> from a fresh agent, the active-monitor map has an entry for
  the id \<open>r\<close> exactly when the slot \<open>r\<close> holds a rule whose interval is truthy
  (given, not zero and not NaN) and neither \<open>removeRule(r)\<close> nor
  \<open>stopAllMonitoring\<close> has happened since that rule was added.
\<close>

theorem monitor_iff_timed_and_not_stopped:
  "r \<in> monitored (run ops) \<longleftrightarrow>
     (\<exists>rule. rule_at (run ops) r = Some rule \<and> truthy_opt (interval rule)) \<and> r \<notin> stopped ops"
proof -
  have "length (rules initial_state) = 0"
    by (simp add: initial_state_def)
  with inv_fold [OF inv_initial, of ops] have "monitor_inv (run ops) (stopped ops)"
    by (simp add: run_def stopped_def)
  then show ?thesis
    by (auto simp add: monitor_inv_def timed_rule_at_iff)
qed

theorem monitor_iff_timed_and_not_stopped_witness:
  "2 \<in> monitored (run sample_history) \<and> 0 \<notin> monitored (run sample_history)
   \<and> 1 \<notin> monitored (run sample_history)"
proof -
  have rules: "rules (run sample_history) =
      [Some (alert_rule 60000), Some zero_interval_rule, Some (alert_rule 1000)]"
    by (simp add: run_def sample_history_def initial_state_def)
  have stops: "stopped sample_history = {0, 1}"
    by (auto simp add: stopped_def sample_history_def)
  have intervals: "truthy_opt (interval (alert_rule 1000))"
    "\<not> truthy_opt (interval zero_interval_rule)"
    by (simp_all add: alert_rule_def zero_interval_rule_def)
  from monitor_iff_timed_and_not_stopped [of 2 sample_history]
    monitor_iff_timed_and_not_stopped [of 0 sample_history]
    monitor_iff_timed_and_not_stopped [of 1 sample_history]
  show ?thesis
    by (simp add: rule_at_def rules stops intervals)
qed

text \<open>
  C3 as stated fails for an interval given as zero: the slot holds the rule, its interval
  is set, nothing has been stopped, and there is no monitor.
\<close>

theorem zero_interval_counterexample:
  "rule_at (run [AddRule zero_interval_rule]) 0 = Some zero_interval_rule
   \<and> interval zero_interval_rule = Some (Fin 0)
   \<and> 0 \<notin> stopped [AddRule zero_interval_rule]
   \<and> 0 \<notin> monitored (run [AddRule zero_interval_rule])"
  by (simp add: run_def initial_state_def addRule_def rule_at_def zero_interval_rule_def
      alert_rule_def stopped_def monitored_def)

section \<open>Market analysis\<close>

lemma mset_insert_sorted: "mset (insert_sorted cmp x ys) = add_mset x (mset ys)"
  by (induction ys) simp_all

lemma mset_js_sort: "mset (js_sort cmp xs) = mset xs"
  by (induction xs) (simp_all add: js_sort_def mset_insert_sorted)

lemma difference_positive:
  "a \<noteq> NaN \<Longrightarrow> b \<noteq> NaN \<Longrightarrow> js_gt (js_sub b a) (Fin 0) \<longleftrightarrow> js_lt a b"
  by (cases a; cases b) (simp_all add: js_gt_def)

lemma js_ge_trans: "js_ge a b \<Longrightarrow> js_ge b c \<Longrightarrow> js_ge a c"
  by (cases a; cases b; cases c) (simp_all add: js_ge_def)

lemma js_lt_imp_ge: "js_lt a b \<Longrightarrow> js_ge b a"
  by (cases a; cases b) (simp_all add: js_ge_def)

lemma sorted_insert_sorted:
  assumes "key x \<noteq> NaN" and "\<forall>y \<in> set ys. key y \<noteq> NaN"
    and "sorted_wrt (\<lambda>a b. js_ge (key a) (key b)) ys"
  shows "sorted_wrt (\<lambda>a b. js_ge (key a) (key b))
           (insert_sorted (\<lambda>a b. js_sub (key b) (key a)) x ys)"
  using assms
proof (induction ys)
  case Nil
  then show ?case by simp
next
  case (Cons y ys)
  let ?cmp = "\<lambda>a b. js_sub (key b) (key a)"
  show ?case
  proof (cases "js_gt (?cmp x y) (Fin 0)")
    case True
    then have "js_lt (key x) (key y)"
      using Cons.prems by (simp add: difference_positive)
    then have yx: "js_ge (key y) (key x)"
      by (rule js_lt_imp_ge)
    have "set (insert_sorted ?cmp x ys) = insert x (set ys)"
      using mset_insert_sorted [of ?cmp x ys] by (metis set_mset_add_mset_insert set_mset_mset)
    with True Cons yx show ?thesis by auto
  next
    case False
    then have xy: "js_ge (key x) (key y)"
      using Cons.prems by (simp add: difference_positive js_ge_def)
    with False Cons.prems show ?thesis
      by (auto intro: js_ge_trans)
  qed
qed

lemma sorted_js_sort:
  assumes "\<forall>y \<in> set xs. key y \<noteq> NaN"
  shows "sorted_wrt (\<lambda>a b. js_ge (key a) (key b)) (js_sort (\<lambda>a b. js_sub (key b) (key a)) xs)"
  using assms
proof (induction xs)
  case Nil
  then show ?case by (simp add: js_sort_def)
next
  case (Cons x xs)
  have "set (js_sort (\<lambda>a b. js_sub (key b) (key a)) xs) = set xs"
    using mset_js_sort [of "\<lambda>a b. js_sub (key b) (key a)" xs] by (metis set_mset_mset)
  with Cons sorted_insert_sorted [of key x "js_sort (\<lambda>a b. js_sub (key b) (key a)) xs"]
  show ?case
    by (simp add: js_sort_def)
qed

lemma positive_not_NaN: "js_gt a (Fin 0) \<Longrightarrow> a \<noteq> NaN"
  by (cases a) (simp_all add: js_gt_def)

lemma top_performers_ranked:
  "\<exists>ranked.
     mset ranked = mset (filter (\<lambda>x. js_gt (price_change_percentage_24h x) (Fin 0)) cryptos)
     \<and> sorted_wrt (\<lambda>a b. js_ge (price_change_percentage_24h a) (price_change_percentage_24h b)) ranked
     \<and> identifyTopPerformers cryptos = take 3 ranked"
proof -
  let ?pos = "filter (\<lambda>x. js_gt (price_change_percentage_24h x) (Fin 0)) cryptos"
  let ?ranked = "js_sort (\<lambda>a b. js_sub (price_change_percentage_24h b) (price_change_percentage_24h a)) ?pos"
  have "\<forall>y \<in> set ?pos. price_change_percentage_24h y \<noteq> NaN"
    by (auto dest: positive_not_NaN)
  then have "sorted_wrt (\<lambda>a b. js_ge (price_change_percentage_24h a) (price_change_percentage_24h b)) ?ranked"
    by (rule sorted_js_sort)
  moreover have "mset ?ranked = mset ?pos"
    by (rule mset_js_sort)
  moreover have "identifyTopPerformers cryptos = take 3 ?ranked"
    by (simp add: identifyTopPerformers_def)
  ultimately show ?thesis by blast
qed

lemma sentiment_cases:
  "(calculateMarketSentiment stats = ''Bullish'' \<longleftrightarrow>
      js_gt (market_cap_change_percentage_24h_usd stats) (Fin 5))
   \<and> (calculateMarketSentiment stats = ''Bearish'' \<longleftrightarrow>
      js_lt (market_cap_change_percentage_24h_usd stats) (Fin (- 5)))
   \<and> (calculateMarketSentiment stats = ''Neutral'' \<longleftrightarrow>
      \<not> js_gt (market_cap_change_percentage_24h_usd stats) (Fin 5)
      \<and> \<not> js_lt (market_cap_change_percentage_24h_usd stats) (Fin (- 5)))"
  using js_gt_lt_exclusive [of "market_cap_change_percentage_24h_usd stats"]
  by (auto simp add: calculateMarketSentiment_def Let_def)

text \<open>
  C6, as amended. When both fetches resolve, \<open>analyze_market\<close> returns: as
  \<open>topPerformers\<close> the first three of the assets with a positive 24h change, put in
  descending order of that change; as \<open>marketSentiment\<close> \<open>Bullish\<close> exactly when the
  change of the global market cap is greater than 5, \<open>Bearish\<close> exactly when it is less
  than -5, and \<open>Neutral\<close> otherwise; as \<open>recommendations\<close> the one fixed line of a
  Bullish or of a Bearish market, and no line at all in a Neutral one.
\<close>

theorem analyze_market_result:
  assumes "getTopCryptos c 10 = Inr cryptos" and "getMarketStats c = Inr stats"
  shows "analyzeMarket c p =
           Inr (AnalyzeMarket \<lparr>topPerformers = identifyTopPerformers cryptos,
                  marketSentiment = calculateMarketSentiment stats,
                  recommendations = generateMarketRecommendations cryptos stats\<rparr>)
    \<and> (\<exists>ranked.
          mset ranked = mset (filter (\<lambda>x. js_gt (price_change_percentage_24h x) (Fin 0)) cryptos)
          \<and> sorted_wrt (\<lambda>a b. js_ge (price_change_percentage_24h a) (price_change_percentage_24h b)) ranked
          \<and> identifyTopPerformers cryptos = take 3 ranked)
    \<and> (calculateMarketSentiment stats = ''Bullish'' \<longleftrightarrow>
          js_gt (market_cap_change_percentage_24h_usd stats) (Fin 5))
    \<and> (calculateMarketSentiment stats = ''Bearish'' \<longleftrightarrow>
          js_lt (market_cap_change_percentage_24h_usd stats) (Fin (- 5)))
    \<and> (calculateMarketSentiment stats = ''Neutral'' \<longleftrightarrow>
          \<not> js_gt (market_cap_change_percentage_24h_usd stats) (Fin 5)
          \<and> \<not> js_lt (market_cap_change_percentage_24h_usd stats) (Fin (- 5)))
    \<and> generateMarketRecommendations cryptos stats =
         (if calculateMarketSentiment stats = ''Bullish''
          then [''Consider increasing portfolio exposure'']
          else if calculateMarketSentiment stats = ''Bearish''
          then [''Consider reducing risk'']
          else [])"
proof -
  have "analyzeMarket c p =
           Inr (AnalyzeMarket \<lparr>topPerformers = identifyTopPerformers cryptos,
                  marketSentiment = calculateMarketSentiment stats,
                  recommendations = generateMarketRecommendations cryptos stats\<rparr>)"
    using assms by (simp add: analyzeMarket_def)
  moreover have "generateMarketRecommendations cryptos stats =
         (if calculateMarketSentiment stats = ''Bullish''
          then [''Consider increasing portfolio exposure'']
          else if calculateMarketSentiment stats = ''Bearish''
          then [''Consider reducing risk'']
          else [])"
    by (simp add: generateMarketRecommendations_def Let_def)
  ultimately show ?thesis
    using top_performers_ranked [of cryptos] sentiment_cases [of stats] by simp
qed

theorem analyze_market_result_witness:
  "analyzeMarket rising_clients no_params =
     Inr (AnalyzeMarket \<lparr>topPerformers = [listed ''xrp'' 9, listed ''sol'' 7, listed ''ada'' 3],
            marketSentiment = ''Bullish'',
            recommendations = [''Consider increasing portfolio exposure'']\<rparr>)"
proof -
  let ?cryptos = "[listed ''btc'' 2, listed ''eth'' (- 1), listed ''sol'' 7, listed ''ada'' 3,
      listed ''xrp'' 9]"
  let ?stats = "\<lparr>total_market_cap_usd = Fin 1000, market_cap_change_percentage_24h_usd = Fin 8\<rparr>"
  have top: "getTopCryptos rising_clients 10 = Inr ?cryptos"
    by (simp add: rising_clients_def mock_clients_def)
  have stats: "getMarketStats rising_clients = Inr ?stats"
    by (simp add: rising_clients_def mock_clients_def)
  have ranked: "identifyTopPerformers ?cryptos = [listed ''xrp'' 9, listed ''sol'' 7, listed ''ada'' 3]"
    by (simp add: identifyTopPerformers_def js_sort_def listed_def js_gt_def)
  have rising: "js_gt (market_cap_change_percentage_24h_usd ?stats) (Fin 5)"
    by (simp add: js_gt_def)
  from analyze_market_result [OF top stats, of no_params] ranked rising
  show ?thesis by simp
qed

text \<open>
  C6 as stated fails in a Neutral market (a change of 1 percent): the list of
  recommendations is empty.
\<close>

theorem neutral_market_counterexample:
  "analyzeMarket mock_clients no_params =
     Inr (AnalyzeMarket \<lparr>topPerformers = [listed ''xrp'' 9, listed ''sol'' 7, listed ''ada'' 3],
            marketSentiment = ''Neutral'', recommendations = []\<rparr>)"
  by (simp add: analyzeMarket_def mock_clients_def identifyTopPerformers_def js_sort_def
      listed_def js_gt_def calculateMarketSentiment_def generateMarketRecommendations_def)

section \<open>Values of rounded numbers\<close>

text \<open>
  The rounding of \<open>round_double\<close> is to a nearest multiple of the spacing of the
  doubles around the number: \<open>ilog2\<close> is the binary exponent of a positive
  number, and a finite result is at most half a spacing away from the number.
\<close>

lemma bit_length_bounds:
  "0 < n \<Longrightarrow> (2::nat) ^ (bit_length n - 1) \<le> n \<and> n < 2 ^ bit_length n"
proof (induction n rule: bit_length.induct)
  case (1 n)
  show ?case
  proof (cases "n div 2 = 0")
    case True
    with "1.prems" have "n = 1" by presburger
    then show ?thesis by (simp add: bit_length.simps [of "Suc 0"] bit_length.simps [of 0])
  next
    case False
    then have pos: "0 < n div 2" by simp
    from "1.prems" have n0: "n \<noteq> 0" by simp
    from "1.IH" [OF n0 pos] have
      lo: "(2::nat) ^ (bit_length (n div 2) - 1) \<le> n div 2"
      and hi: "n div 2 < 2 ^ bit_length (n div 2)"
      by simp_all
    have bl: "bit_length n = Suc (bit_length (n div 2))"
      using n0 by (subst bit_length.simps) simp
    have "bit_length (n div 2) = Suc (bit_length (n div 2 div 2))"
      using False by (subst bit_length.simps) simp
    then obtain k where k: "bit_length (n div 2) = Suc k" by blast
    have "(2::nat) ^ (bit_length n - 1) = 2 * 2 ^ (bit_length (n div 2) - 1)"
      by (simp add: bl k)
    moreover have "2 * (n div 2) \<le> n" by simp
    ultimately have "(2::nat) ^ (bit_length n - 1) \<le> n"
      using lo by linarith
    moreover have "n < 2 * 2 ^ bit_length (n div 2)"
      using hi by linarith
    ultimately show ?thesis by (simp add: bl)
  qed
qed

lemma round_half_even_close: "\<bar>of_int (round_half_even r) - r\<bar> \<le> 1 / 2"
proof -
  have "of_int \<lfloor>r\<rfloor> \<le> r" "r < of_int \<lfloor>r\<rfloor> + 1"
    by linarith+
  then show ?thesis
    by (auto simp add: round_half_even_def Let_def abs_le_iff)
qed

lemma pow2_positive: "0 < pow2 e"
  by (simp add: pow2_def)

lemma scaled_close:
  fixes m a p :: real
  assumes "0 < p" and "\<bar>m - a / p\<bar> \<le> 1 / 2"
  shows "\<bar>m * p - a\<bar> \<le> p / 2"
proof -
  have "m * p - a = (m - a / p) * p"
    using assms(1) by (simp add: field_simps)
  then have "\<bar>m * p - a\<bar> = \<bar>m - a / p\<bar> * p"
    using assms(1) by (simp add: abs_mult)
  also have "\<dots> \<le> (1 / 2) * p"
    using assms by (intro mult_right_mono) simp_all
  finally show ?thesis by simp
qed

lemma round_double_close:
  assumes "round_double x = Fin y"
  shows "\<bar>y - x\<bar> \<le> pow2 (max (ilog2 \<bar>x\<bar> - 52) (- 1074)) / 2"
proof (cases "x = 0")
  case True
  with assms show ?thesis
    using pow2_positive [of "max (ilog2 \<bar>x\<bar> - 52) (- 1074)"] by (simp add: round_double_def)
next
  case False
  define p where "p = pow2 (max (ilog2 \<bar>x\<bar> - 52) (- 1074))"
  define m :: real where "m = of_int (round_half_even (\<bar>x\<bar> / p))"
  have p: "0 < p" unfolding p_def by (rule pow2_positive)
  from assms False have y: "y = (if x < 0 then - (m * p) else m * p)"
    by (simp add: round_double_def Let_def p_def m_def split: if_splits)
  have "\<bar>m - \<bar>x\<bar> / p\<bar> \<le> 1 / 2"
    unfolding m_def by (rule round_half_even_close)
  with p have close: "\<bar>m * p - \<bar>x\<bar>\<bar> \<le> p / 2"
    by (rule scaled_close)
  show ?thesis
  proof (cases "x < 0")
    case True
    then have "\<bar>y - x\<bar> = \<bar>m * p - \<bar>x\<bar>\<bar>"
      using y by (simp add: abs_minus_commute)
    with close show ?thesis unfolding p_def [symmetric] by simp
  next
    case nonneg: False
    then have "\<bar>y - x\<bar> = \<bar>m * p - \<bar>x\<bar>\<bar>"
      using y by simp
    with close show ?thesis unfolding p_def [symmetric] by simp
  qed
qed

lemma bit_length_positive: "0 < n \<Longrightarrow> 0 < bit_length n"
  by (subst bit_length.simps) simp

lemma ilog2_bounds:
  assumes "0 < a"
  shows "pow2 (ilog2 a) \<le> a \<and> a < pow2 (ilog2 a + 1)"
proof (cases "1 \<le> a")
  case True
  define n where "n = nat \<lfloor>a\<rfloor>"
  define k where "k = bit_length n"
  from True have n: "0 < n" "real n \<le> a" "a < real n + 1"
    unfolding n_def by (simp_all add: floor_less_iff)
  from bit_length_bounds [OF n(1)] have b: "2 ^ (k - 1) \<le> n" "n < 2 ^ k"
    unfolding k_def by simp_all
  have kpos: "0 < k" unfolding k_def using n(1) by (rule bit_length_positive)
  have il: "ilog2 a = int k - 1"
    using True by (simp add: ilog2_def n_def k_def)
  have lo: "pow2 (ilog2 a) = 2 ^ (k - 1)"
    using kpos by (simp add: il pow2_def nat_diff_distrib)
  have hi: "pow2 (ilog2 a + 1) = 2 ^ k"
    by (simp add: il pow2_def)
  have "real (2 ^ (k - 1)) \<le> real n"
    using b(1) by (rule of_nat_mono)
  then have r1: "(2::real) ^ (k - 1) \<le> real n"
    by simp
  have "real (Suc n) \<le> real (2 ^ k)"
    using b(2) by (intro of_nat_mono) simp
  then have r2: "real n + 1 \<le> 2 ^ k"
    by simp
  show ?thesis
    unfolding lo hi using r1 r2 n(2,3) by linarith
next
  case False
  with assms have inv: "1 < 1 / a" by simp
  define N where "N = \<lceil>1 / a\<rceil>"
  define n where "n = nat (N - 1)"
  define k where "k = bit_length n"
  have N: "real_of_int N - 1 < 1 / a" "1 / a \<le> real_of_int N"
    unfolding N_def by linarith+
  with inv have N2: "2 \<le> N" by linarith
  then have n: "0 < n" "real n = real_of_int N - 1"
    unfolding n_def by simp_all
  from bit_length_bounds [OF n(1)] have b: "2 ^ (k - 1) \<le> n" "n < 2 ^ k"
    unfolding k_def by simp_all
  have kpos: "0 < k" unfolding k_def using n(1) by (rule bit_length_positive)
  have il: "ilog2 a = - int k"
    using False by (simp add: ilog2_def n_def k_def N_def)
  have lo: "pow2 (ilog2 a) = 1 / 2 ^ k"
    using kpos by (simp add: il pow2_def)
  have hi: "pow2 (ilog2 a + 1) = 1 / 2 ^ (k - 1)"
  proof (cases "k = 1")
    case True
    then show ?thesis by (simp add: il pow2_def)
  next
    case False
    with kpos have "1 < k" by simp
    then have "nat (int k - 1) = k - 1" by simp
    with \<open>1 < k\<close> show ?thesis by (simp add: il pow2_def)
  qed
  have "real (2 ^ (k - 1)) \<le> real n"
    using b(1) by (rule of_nat_mono)
  then have r1: "(2::real) ^ (k - 1) \<le> real n"
    by simp
  have "real (Suc n) \<le> real (2 ^ k)"
    using b(2) by (intro of_nat_mono) simp
  then have r2: "real n + 1 \<le> 2 ^ k"
    by simp
  have "1 / a \<le> 2 ^ k"
    using N(2) r2 n(2) by linarith
  then have low: "1 / 2 ^ k \<le> a"
    using assms by (simp add: field_simps)
  have "2 ^ (k - 1) < 1 / a"
    using N(1) r1 n(2) by linarith
  then have high: "a < 1 / 2 ^ (k - 1)"
    using assms by (simp add: field_simps)
  from low high show ?thesis
    unfolding lo hi by simp
qed

lemma bit_length_0 [simp]: "bit_length 0 = 0"
  by (simp add: bit_length.simps)

lemma bit_length_1 [simp]: "bit_length (Suc 0) = Suc 0"
  by (simp add: bit_length.simps [of "Suc 0"])

lemma bit_length_One [simp]: "bit_length (numeral Num.One) = Suc 0"
  by (simp add: bit_length.simps [of 1])

lemma bit_length_Bit0 [simp]: "bit_length (numeral (Num.Bit0 n)) = Suc (bit_length (numeral n))"
  by (subst bit_length.simps) simp

lemma bit_length_Bit1 [simp]: "bit_length (numeral (Num.Bit1 n)) = Suc (bit_length (numeral n))"
  by (subst bit_length.simps) simp

lemmas round_double_eval = round_double_def ilog2_def pow2_def round_half_even_def Let_def

text \<open>
  Rounding at work: a decimal that is not a double, a tie going to the even significand,
  the subnormal range, and the overflow threshold.
\<close>

lemma round_double_examples:
  "round_double 0.1 = Fin (3602879701896397 / 36028797018963968)"
  "round_double (- 0.1) = Fin (- (3602879701896397 / 36028797018963968))"
  "round_double (2 ^ 53 + 1) = Fin (2 ^ 53)"
  "round_double (2 ^ 53 + 3) = Fin (2 ^ 53 + 4)"
  "round_double (1 / 10 ^ 400) = Fin 0"
  "round_double (5 / 10 ^ 324) = Fin (1 / 2 ^ 1074)"
  "round_double (2 ^ 1024 - 2 ^ 970) = PosInf"
  "round_double (2 ^ 1024 - 2 ^ 970 - 1) = Fin (2 ^ 1024 - 2 ^ 971)"
  by (simp_all add: round_double_eval)

lemmas parseFloat_eval = parseFloat.simps is_digit_def is_space_def digits_val_def digit_val_def
  scale10_def

text \<open>
  Decimal texts as \<open>parseFloat\<close> reads them: a text and a longer one that round to the
  same double, the double of \<open>0.3\<close>, and an overflow.
\<close>

lemma parseFloat_examples:
  "parseFloat (Some ''60000'') = Fin 60000"
  "parseFloat (Some ''40000'') = Fin 40000"
  "parseFloat (Some ''1'') = Fin 1"
  "parseFloat (Some ''1.5'') = Fin 1.5"
  "parseFloat (Some ''1.500000000000000001'') = Fin 1.5"
  "parseFloat (Some ''0.3'') = Fin (5404319552844595 / 18014398509481984)"
  "parseFloat (Some ''1e400'') = PosInf"
  by (simp_all add: parseFloat_eval round_double_eval)

section \<open>Conditions of rules\<close>

lemma split_without_separator: "sep \<notin> set a \<Longrightarrow> split sep a = [a]"
  by (induction a) auto

lemma split_at_separator:
  "sep \<notin> set a \<Longrightarrow> split sep (a @ sep # rest) = a # split sep rest"
  by (induction a) auto

lemma split_nonempty: "split sep s \<noteq> []"
  by (induction s) (auto split: list.splits)

lemma hd_split: "hd (split sep s) = takeWhile (\<lambda>ch. ch \<noteq> sep) s"
  using split_nonempty [of sep]
  by (induction s) (auto split: list.splits)

lemma split_two_arguments:
  assumes "CHR '':'' \<notin> set a" and "CHR '':'' \<notin> set b"
  shows "split CHR '':'' (a @ '':'' @ b) = [a, b]"
  using assms by (simp add: split_at_separator split_without_separator)

lemma price_condition_pieces:
  assumes "CHR '':'' \<notin> set a" and "CHR '':'' \<notin> set b"
  shows "split CHR '':'' (''price_below_threshold:'' @ a @ '':'' @ b) =
    [''price_below_threshold'', a, b]"
  using split_two_arguments [OF assms] by simp

lemma wallet_condition_pieces:
  assumes "CHR '':'' \<notin> set a" and "CHR '':'' \<notin> set b"
  shows "split CHR '':'' (''wallet_balance_above:'' @ a @ '':'' @ b) =
    [''wallet_balance_above'', a, b]"
  using split_two_arguments [OF assms] by simp

lemma check_price_registered: "tasks c ''check_price'' = Some (checkPrice c)"
  by (simp add: tasks_def)

lemma monitor_wallet_registered: "tasks c ''monitor_wallet'' = Some (monitorWallet c)"
  by (simp add: tasks_def)

lemma check_price_data:
  "executeTask (tasks c) ''check_price'' p = Inr r \<Longrightarrow> success r \<Longrightarrow>
     \<exists>d. r = \<lparr>success = True, data = Some (CheckPrice d), error = None\<rparr>"
  by (auto simp add: executeTask_def check_price_registered checkPrice_def
      split: sum.splits thrown.splits)

lemma monitor_wallet_data:
  "executeTask (tasks c) ''monitor_wallet'' p = Inr r \<Longrightarrow> success r \<Longrightarrow>
     \<exists>w. r = \<lparr>success = True, data = Some (MonitorWallet w), error = None\<rparr>"
  by (auto simp add: executeTask_def monitor_wallet_registered monitorWallet_def
      split: sum.splits thrown.splits)

lemma price_below_threshold_iff:
  assumes "CHR '':'' \<notin> set sy" and "CHR '':'' \<notin> set threshold"
  shows "evaluateCondition c (''price_below_threshold:'' @ sy @ '':'' @ threshold) = Inr True \<longleftrightarrow>
    (\<exists>d. executeTask (tasks c) ''check_price'' (no_params\<lparr>symbol := Some sy\<rparr>) =
            Inr \<lparr>success = True, data = Some (CheckPrice d), error = None\<rparr>
          \<and> js_lt (cp_price d) (parseFloat (Some threshold)))"
proof (cases "executeTask (tasks c) ''check_price'' (no_params\<lparr>symbol := Some sy\<rparr>)")
  case (Inl e)
  then show ?thesis
    unfolding evaluateCondition_def price_condition_pieces [OF assms] by (simp add: element_def)
next
  case (Inr r)
  show ?thesis
  proof (cases "success r")
    case False
    with Inr show ?thesis
      unfolding evaluateCondition_def price_condition_pieces [OF assms] by (auto simp add: element_def)
  next
    case True
    from check_price_data [OF Inr True] obtain d where
      r: "r = \<lparr>success = True, data = Some (CheckPrice d), error = None\<rparr>" ..
    with Inr show ?thesis
      unfolding evaluateCondition_def price_condition_pieces [OF assms] by (simp add: element_def)
  qed
qed

lemma wallet_balance_above_iff:
  assumes "CHR '':'' \<notin> set addr" and "CHR '':'' \<notin> set minBalance"
  shows "evaluateCondition c (''wallet_balance_above:'' @ addr @ '':'' @ minBalance) = Inr True \<longleftrightarrow>
    (\<exists>w. executeTask (tasks c) ''monitor_wallet'' (no_params\<lparr>address := Some addr\<rparr>) =
            Inr \<lparr>success = True, data = Some (MonitorWallet w), error = None\<rparr>
          \<and> js_gt (parseFloat (Some (balance w))) (parseFloat (Some minBalance)))"
proof (cases "executeTask (tasks c) ''monitor_wallet'' (no_params\<lparr>address := Some addr\<rparr>)")
  case (Inl e)
  then show ?thesis
    unfolding evaluateCondition_def wallet_condition_pieces [OF assms] by (simp add: element_def)
next
  case (Inr r)
  show ?thesis
  proof (cases "success r")
    case False
    with Inr show ?thesis
      unfolding evaluateCondition_def wallet_condition_pieces [OF assms] by (auto simp add: element_def)
  next
    case True
    from monitor_wallet_data [OF Inr True] obtain w where
      r: "r = \<lparr>success = True, data = Some (MonitorWallet w), error = None\<rparr>" ..
    with Inr show ?thesis
      unfolding evaluateCondition_def wallet_condition_pieces [OF assms] by (simp add: element_def)
  qed
qed

lemma unknown_condition_false:
  assumes "takeWhile (\<lambda>ch. ch \<noteq> CHR '':'') cond \<noteq> ''price_below_threshold''"
    and "takeWhile (\<lambda>ch. ch \<noteq> CHR '':'') cond \<noteq> ''wallet_balance_above''"
  shows "evaluateCondition c cond = Inr False"
proof (cases "split CHR '':'' cond")
  case Nil
  then show ?thesis by (simp add: evaluateCondition_def)
next
  case (Cons ty ps)
  with hd_split [of "CHR '':''" cond] have "ty = takeWhile (\<lambda>ch. ch \<noteq> CHR '':'') cond"
    by simp
  with assms Cons show ?thesis
    by (simp add: evaluateCondition_def)
qed

text \<open>
  C7. For a symbol and a threshold without a colon, the condition
  \<open>price_below_threshold:symbol:threshold\<close> evaluates to true exactly when the
  \<open>check_price\<close> task for the symbol succeeds and its price is less than the number
  read from the threshold. For an address and a minimum without a colon,
  \<open>wallet_balance_above:address:minBalance\<close> evaluates to true exactly when the
  \<open>monitor_wallet\<close> task succeeds and the number read from its balance is greater
  than the number read from the minimum. A condition whose text before the first colon is
  neither of the two names evaluates to false, without raising.
\<close>

theorem evaluateCondition_cases:
  "(CHR '':'' \<notin> set sy \<and> CHR '':'' \<notin> set threshold \<longrightarrow>
      (evaluateCondition c (''price_below_threshold:'' @ sy @ '':'' @ threshold) = Inr True \<longleftrightarrow>
         (\<exists>d. executeTask (tasks c) ''check_price'' (no_params\<lparr>symbol := Some sy\<rparr>) =
                 Inr \<lparr>success = True, data = Some (CheckPrice d), error = None\<rparr>
               \<and> js_lt (cp_price d) (parseFloat (Some threshold)))))
   \<and> (CHR '':'' \<notin> set addr \<and> CHR '':'' \<notin> set minBalance \<longrightarrow>
      (evaluateCondition c (''wallet_balance_above:'' @ addr @ '':'' @ minBalance) = Inr True \<longleftrightarrow>
         (\<exists>w. executeTask (tasks c) ''monitor_wallet'' (no_params\<lparr>address := Some addr\<rparr>) =
                 Inr \<lparr>success = True, data = Some (MonitorWallet w), error = None\<rparr>
               \<and> js_gt (parseFloat (Some (balance w))) (parseFloat (Some minBalance)))))
   \<and> (takeWhile (\<lambda>ch. ch \<noteq> CHR '':'') cond \<noteq> ''price_below_threshold''
        \<and> takeWhile (\<lambda>ch. ch \<noteq> CHR '':'') cond \<noteq> ''wallet_balance_above'' \<longrightarrow>
      evaluateCondition c cond = Inr False)"
  using price_below_threshold_iff [of sy threshold c]
    wallet_balance_above_iff [of addr minBalance c]
    unknown_condition_false [of cond c]
  by blast

theorem evaluateCondition_cases_witness:
  "evaluateCondition mock_clients ''price_below_threshold:bitcoin:60000'' = Inr True
   \<and> evaluateCondition mock_clients ''price_below_threshold:bitcoin:40000'' \<noteq> Inr True
   \<and> evaluateCondition mock_clients ''wallet_balance_above:0xabc:1'' = Inr True
   \<and> evaluateCondition mock_clients ''wallet_balance_above:0xabc:1.5'' \<noteq> Inr True
   \<and> evaluateCondition mock_clients ''bogus_condition:x:y'' = Inr False"
proof -
  have priced: "executeTask (tasks mock_clients) ''check_price'' (no_params\<lparr>symbol := Some ''bitcoin''\<rparr>) =
      Inr \<lparr>success = True,
           data = Some (CheckPrice \<lparr>cp_price = Fin 50000, cp_change24h = Fin (- 6),
                          cp_recommendation = ''Potential Buying Opportunity''\<rparr>),
           error = None\<rparr>"
    by (simp add: executeTask_def check_price_registered checkPrice_def mock_clients_def
        mock_getPrice_def quote_def no_params_def analyzePriceMovement_def js_gt_def)
  have wallet: "executeTask (tasks mock_clients) ''monitor_wallet'' (no_params\<lparr>address := Some ''0xabc''\<rparr>) =
      Inr \<lparr>success = True,
           data = Some (MonitorWallet \<lparr>balance = ''1.5'', recentTransactions = [],
                          securityStatus = ''Normal Activity''\<rparr>),
           error = None\<rparr>"
    by (simp add: executeTask_def monitor_wallet_registered monitorWallet_def mock_clients_def
        no_params_def assessWalletSecurity_def)
  from evaluateCondition_cases [where c = mock_clients and sy = "''bitcoin''"
      and threshold = "''60000''" and addr = "''0xabc''" and minBalance = "''1''"
      and cond = "''bogus_condition:x:y''"]
    evaluateCondition_cases [where c = mock_clients and sy = "''bitcoin''"
      and threshold = "''40000''" and addr = "''0xabc''" and minBalance = "''1.5''"
      and cond = "''bogus_condition:x:y''"]
  show ?thesis
    by (simp add: priced wallet parseFloat_examples js_gt_def)
qed

section \<open>Contract interactions\<close>

lemma contract_registered:
  "tasks c ''smart_contract_interaction'' = Some (interactWithContract c)"
  by (simp add: tasks_def)








lemma max_uint256_allowance_passes:
  "executeTask (tasks mock_clients) ''smart_contract_interaction'' (approve_call router max_uint256) =
     Inr \<lparr>success = True,
          data = Some (ContractInteraction \<lparr>gasEstimate = ''46000'', safetyCheck = ''Passed'',
                         estimatedCost = ''Estimated cost: 46000 gas units''\<rparr>),
          error = None\<rparr>"
  by (simp add: executeTask_def contract_registered interactWithContract_def approve_call_def
      no_params_def mock_clients_def validateContractInteraction_def
      validateHighRiskOperation_def second_param_def calculateTransactionCost_def
      max_uint256_def)


section \<open>The suggested alert threshold\<close>








end
